theory Spec2Isabelle
  imports Complex_Main
begin

section \<open>Data model\<close>

text \<open>
  Documents of the Farmhouse collection (models/Farmhouse.js). Only \<open>name\<close> is a required
  path; \<open>manager\<close>, \<open>admin\<close> and \<open>location\<close> may be absent, which is \<open>None\<close> here.
  \<open>fh_id\<close> is the document's \<open>_id\<close>.
\<close>

record farmhouse =
  fh_id :: string
  fh_name :: string
  fh_manager :: "string option"
  fh_admin :: "string option"
  fh_assistants :: "string list"
  fh_location :: "string option"

text \<open>
  Documents of the Alert collection. The schema file is not part of the sources; the record
  has the four paths that the alerts router writes (title, category, location, description)
  and the \<open>_id\<close>. An absent path is \<open>None\<close>.
\<close>

record alert =
  al_id :: string
  al_title :: "string option"
  al_category :: "string option"
  al_location :: "string option"
  al_description :: "string option"

section \<open>Alert fan-out over the socket server\<close>

text \<open>
  JavaScript truthiness of an optional string, as used by \<open>filter(Boolean)\<close>: undefined,
  null and the empty string are falsy.
\<close>

fun truthy_str :: "string option \<Rightarrow> bool" where
  "truthy_str None = False"
| "truthy_str (Some s) = (s \<noteq> [])"

text \<open>
  The three queries \<open>Farmhouse.find({ admin: userId })\<close>, \<open>Farmhouse.find({ manager: userId })\<close>
  and \<open>Farmhouse.find({ assistants: userId })\<close>; the last one is array membership.
\<close>

definition find_by_admin :: "string \<Rightarrow> farmhouse list \<Rightarrow> farmhouse list" where
  "find_by_admin userId fhs = filter (\<lambda>fh. fh_admin fh = Some userId) fhs"

definition find_by_manager :: "string \<Rightarrow> farmhouse list \<Rightarrow> farmhouse list" where
  "find_by_manager userId fhs = filter (\<lambda>fh. fh_manager fh = Some userId) fhs"

definition find_by_assistant :: "string \<Rightarrow> farmhouse list \<Rightarrow> farmhouse list" where
  "find_by_assistant userId fhs = filter (\<lambda>fh. userId \<in> set (fh_assistants fh)) fhs"

text \<open>
  \<open>getFilteredAlerts(role, userId)\<close> of the server file, as a function of the two collections
  it reads. The role is the raw string; any other role leaves \<open>farmhouses\<close> empty.
\<close>

definition getFilteredAlerts ::
  "string \<Rightarrow> string \<Rightarrow> farmhouse list \<Rightarrow> alert list \<Rightarrow> alert list" where
  "getFilteredAlerts role userId fhs als =
     (let farmhouses =
            (if role = ''admin'' then find_by_admin userId fhs
             else if role = ''manager'' then find_by_manager userId fhs
             else if role = ''assistant'' then find_by_assistant userId fhs
             else [])
      in if length farmhouses = 0 then []
         else
           (let farmhouseLocations = filter truthy_str (map fh_location farmhouses)
            in filter (\<lambda>a. al_location a \<in> set farmhouseLocations) als))"

text \<open>
  The reference definition of visibility, following the specification's words: the farmhouses
  whose role-appropriate ownership field equals the user, their non-empty location strings,
  and the alerts whose location string is one of them.
\<close>

definition owns :: "string \<Rightarrow> string \<Rightarrow> farmhouse \<Rightarrow> bool" where
  "owns role userId fh =
     (if role = ''admin'' then fh_admin fh = Some userId
      else if role = ''manager'' then fh_manager fh = Some userId
      else if role = ''assistant'' then userId \<in> set (fh_assistants fh)
      else False)"

definition owned_locations :: "string \<Rightarrow> string \<Rightarrow> farmhouse list \<Rightarrow> string set" where
  "owned_locations role userId fhs =
     {l. l \<noteq> [] \<and> (\<exists>fh \<in> set fhs. owns role userId fh \<and> fh_location fh = Some l)}"

definition spec_visible_alerts ::
  "string \<Rightarrow> string \<Rightarrow> farmhouse list \<Rightarrow> alert list \<Rightarrow> alert list" where
  "spec_visible_alerts role userId fhs als =
     filter (\<lambda>a. \<exists>l \<in> owned_locations role userId fhs. al_location a = Some l) als"

subsection \<open>Connection protocol\<close>

text \<open>The class \<open>\w\<close> of the regular expression: ASCII letters, digits and underscore.\<close>

definition word_char :: "char \<Rightarrow> bool" where
  "word_char c =
     (let n = (of_char c :: nat)
      in (48 \<le> n \<and> n \<le> 57) \<or> (65 \<le> n \<and> n \<le> 90) \<or> n = 95 \<or> (97 \<le> n \<and> n \<le> 122))"

fun strip_prefix :: "string \<Rightarrow> string \<Rightarrow> string option" where
  "strip_prefix [] s = Some s"
| "strip_prefix (p # ps) [] = None"
| "strip_prefix (p # ps) (c # cs) = (if p = c then strip_prefix ps cs else None)"

text \<open>
  One alternative of the group \<open>(admin|manager|assistant)\<close> followed by \<open>\/(\w+)$\<close>:
  the remainder after the literal role and the slash must be a non-empty run of word
  characters reaching the end of the input.
\<close>

definition match_role_tail :: "string \<Rightarrow> string \<Rightarrow> (string \<times> string) option" where
  "match_role_tail role s =
     (case strip_prefix role s of
        None \<Rightarrow> None
      | Some r \<Rightarrow>
          (case strip_prefix ''/'' r of
             None \<Rightarrow> None
           | Some u \<Rightarrow> if u \<noteq> [] \<and> list_all word_char u then Some (role, u) else None))"

fun first_match :: "string list \<Rightarrow> string \<Rightarrow> (string \<times> string) option" where
  "first_match [] s = None"
| "first_match (role # roles) s =
     (case match_role_tail role s of
        Some m \<Rightarrow> Some m
      | None \<Rightarrow> first_match roles s)"

text \<open>
  \<open>url.match(/^\/alerts\/(admin|manager|assistant)\/(\w+)$/)\<close>: the result is the pair of
  capture groups, or \<open>None\<close> for JavaScript's \<open>null\<close>. The alternatives are tried in the
  order in which they are written.
\<close>

definition match_alerts_url :: "string \<Rightarrow> (string \<times> string) option" where
  "match_alerts_url url =
     (case strip_prefix ''/alerts/'' url of
        None \<Rightarrow> None
      | Some s \<Rightarrow> first_match [''admin'', ''manager'', ''assistant''] s)"

text \<open>
  What a client observes of one connection: whether the server closed it, the messages sent
  so far (each one \<open>JSON.stringify\<close> of an alert array) and the role and user of the
  change-stream subscription, if one is open.
\<close>

datatype ws_msg = JsonAlerts "alert list"

record conn =
  closed :: bool
  sent :: "ws_msg list"
  watching :: "(string \<times> string) option"

definition sendAlerts :: "string \<Rightarrow> string \<Rightarrow> farmhouse list \<Rightarrow> alert list \<Rightarrow> ws_msg list" where
  "sendAlerts role userId fhs als = [JsonAlerts (getFilteredAlerts role userId fhs als)]"

text \<open>
  The \<open>connection\<close> handler up to the registration of the change-stream listener. The
  collections are the ones the queries read; the source has no failure handling at this
  layer and the queries are taken to succeed.
\<close>

definition on_connection :: "string \<Rightarrow> farmhouse list \<Rightarrow> alert list \<Rightarrow> conn" where
  "on_connection url fhs als =
     (case match_alerts_url url of
        None \<Rightarrow> \<lparr>closed = True, sent = [], watching = None\<rparr>
      | Some (role, userId) \<Rightarrow>
          \<lparr>closed = False, sent = sendAlerts role userId fhs als, watching = Some (role, userId)\<rparr>)"

text \<open>
  The \<open>change\<close> listener of the subscription: the messages it sends for one event, given
  the collections at the time of the event.
\<close>

definition on_change ::
  "string \<Rightarrow> string \<Rightarrow> string \<Rightarrow> farmhouse list \<Rightarrow> alert list \<Rightarrow> ws_msg list" where
  "on_change operationType role userId fhs als =
     (if operationType = ''insert'' \<or> operationType = ''update''
         \<or> operationType = ''replace'' \<or> operationType = ''delete''
      then sendAlerts role userId fhs als
      else [])"

text \<open>A change event delivered to a connection; without a subscription nothing listens.\<close>

definition deliver_change :: "string \<Rightarrow> farmhouse list \<Rightarrow> alert list \<Rightarrow> conn \<Rightarrow> conn" where
  "deliver_change operationType fhs als c =
     (case watching c of
        None \<Rightarrow> c
      | Some (role, userId) \<Rightarrow> c\<lparr>sent := sent c @ on_change operationType role userId fhs als\<rparr>)"

text \<open>The \<open>close\<close> handler of the socket cancels the subscription.\<close>

definition on_close :: "conn \<Rightarrow> conn" where
  "on_close c = c\<lparr>closed := True, watching := None\<rparr>"

text \<open>A path of the literal form \<open>/alerts/{role}/{userId}\<close>.\<close>

definition well_formed_path :: "string \<Rightarrow> string \<Rightarrow> string \<Rightarrow> bool" where
  "well_formed_path url role userId =
     (url = ''/alerts/'' @ role @ ''/'' @ userId
      \<and> (role = ''admin'' \<or> role = ''manager'' \<or> role = ''assistant'')
      \<and> userId \<noteq> [] \<and> list_all word_char userId)"

section \<open>REST layer\<close>

subsection \<open>Database, requests and responses\<close>

text \<open>
  Parsed JSON values of a request body. A key that is absent from the body object reads as
  JavaScript's \<open>undefined\<close>, which is \<open>None\<close> of \<open>map_of\<close>.
\<close>

datatype jsval =
    JNull
  | JBool bool
  | JNum rat
  | JStr string
  | JArr "jsval list"
  | JObj "(string \<times> jsval) list"

text \<open>
  A stored document of the Animal, Breeding, Vaccination or HealthRecord collection: its
  \<open>_id\<close> and the values of its paths as they were handed to the model constructor.
  Mongoose's conversion of a value to the type of its path is not modelled.
\<close>

record stored =
  d_id :: string
  d_fields :: "(string \<times> jsval) list"

text \<open>
  The join record of the FarmhouseUsers collection (models/FarmhouseUsers.js). Identifiers
  are compared as the strings of the ObjectIds they denote.
\<close>

record farmhouse_users =
  fu_adminId :: string
  fu_managers :: "string list"
  fu_assistants :: "string list"

text \<open>
  The collections that the modelled routers read and write. Every driver call of the source
  is awaited inside a \<open>try\<close> block; \<open>fault\<close> stands for an exception of the driver that
  is not a validation failure: when it is \<open>Some msg\<close>, each call rejects with an error whose
  message is \<open>msg\<close>. Identifiers are strings and every string is a possible identifier; the
  cast error that the driver raises for a malformed identifier is not modelled.
\<close>

record db =
  farmhouses :: "farmhouse list"
  alerts :: "alert list"
  animals :: "stored list"
  breedings :: "stored list"
  vaccinations :: "stored list"
  healthRecords :: "stored list"
  farmhouseUsers :: "farmhouse_users list"
  fault :: "string option"

definition empty_db :: db where
  "empty_db = \<lparr>farmhouses = [], alerts = [], animals = [], breedings = [], vaccinations = [],
              healthRecords = [], farmhouseUsers = [], fault = None\<rparr>"

text \<open>A read of the database: the query result, or the driver's exception message.\<close>

definition db_read :: "(db \<Rightarrow> 'a) \<Rightarrow> db \<Rightarrow> string + 'a" where
  "db_read q d = (case fault d of Some msg \<Rightarrow> Inl msg | None \<Rightarrow> Inr (q d))"

text \<open>
  JSON response bodies, one constructor per shape that the modelled handlers send:
  \<open>{ error }\<close>, \<open>{ msg }\<close>, \<open>{ message }\<close>, arrays or single documents,
  \<open>{ message, key: document }\<close> with the key that the handler uses for the document,
  \<open>{ message, farmhouseUser }\<close>, a CSV attachment, \<open>{ message, insertedCount, invalid }\<close>
  and \<open>{ error, invalid }\<close>.
\<close>

datatype body =
    ErrorBody string
  | MsgBody string
  | MessageBody string
  | AlertList "alert list"
  | AlertDoc alert
  | FarmhouseList "farmhouse list"
  | FarmhouseDoc farmhouse
  | MessageDocBody string string stored
  | FarmhouseUserBody string farmhouse_users
  | CsvBody "string list \<times> string list list"
  | ImportBody string nat "(string \<times> string) list list"
  | ErrorInvalidBody string "(string \<times> string) list list"

record response =
  status :: nat
  body :: body

text \<open>The decoded token that the auth middleware stores in \<open>req.user\<close>.\<close>

record user =
  u_id :: string
  u_role :: string
  u_farmhouse :: "string option"
  u_location :: "string option"

record request =
  req_authorization :: "string option"
  req_user :: "user option"
  req_params :: "(string \<times> string) list"
  req_body :: "(string \<times> jsval) list"

text \<open>A route parameter; the route pattern guarantees that the key is present.\<close>

definition param :: "request \<Rightarrow> string \<Rightarrow> string" where
  "param req k = (case map_of (req_params req) k of Some v \<Rightarrow> v | None \<Rightarrow> [])"

text \<open>
  What becomes of a request: a response was sent, or an exception escaped the handler and
  no response was sent.
\<close>

datatype outcome = Responded response | Uncaught string

text \<open>
  An Express middleware either responds, which ends the chain, or calls \<open>next()\<close>, possibly
  after changing the request. It may read the database. A handler answers and may write.
\<close>

type_synonym middleware = "request \<Rightarrow> db \<Rightarrow> response + request"

type_synonym handler = "request \<Rightarrow> db \<Rightarrow> outcome \<times> db"

fun run_chain :: "middleware list \<Rightarrow> handler \<Rightarrow> handler" where
  "run_chain [] h req d = h req d"
| "run_chain (m # ms) h req d =
     (case m req d of
        Inl resp \<Rightarrow> (Responded resp, d)
      | Inr req' \<Rightarrow> run_chain ms h req' d)"

text \<open>The \<open>manager\<close> middleware (middleware/manager.js).\<close>

definition manager :: middleware where
  "manager req d =
     (case req_user req of
        Some u \<Rightarrow>
          if u_role u = ''manager'' then Inr req
          else Inl \<lparr>status = 403, body = MsgBody ''Access denied. Manager privileges required.''\<rparr>
      | None \<Rightarrow> Inl \<lparr>status = 403, body = MsgBody ''Access denied. Manager privileges required.''\<rparr>)"

text \<open>
  Modelled from the spec: the \<open>superadmin\<close> middleware (middleware/superadmin.js) is not part
  of the sources. The specification describes the gating functions as checks of the decoded
  role against one literal, and a request from a different role is answered 403. The literal
  itself is not settled by the sources (the User schema names the role \<open>super_admin\<close>, the
  specification \<open>superadmin\<close>), so it is the parameter \<open>required\<close>; the message is the one
  the alerts router documents for its 403 response.
\<close>

definition superadmin :: "string \<Rightarrow> middleware" where
  "superadmin required req d =
     (case req_user req of
        Some u \<Rightarrow>
          if u_role u = required then Inr req
          else Inl \<lparr>status = 403, body = MsgBody ''Access denied. Super admin only.''\<rparr>
      | None \<Rightarrow> Inl \<lparr>status = 403, body = MsgBody ''Access denied. Super admin only.''\<rparr>)"

text \<open>
  String paths of a document read from a body: a JSON string is stored as it is, \<open>null\<close> or
  an absent key leaves the path unset. Other JSON values, which Mongoose would cast or
  reject, are outside the model and read as unset.
\<close>

definition str_field :: "(string \<times> jsval) list \<Rightarrow> string \<Rightarrow> string option" where
  "str_field b k = (case map_of b k of Some (JStr s) \<Rightarrow> Some s | _ \<Rightarrow> None)"

fun js_strings :: "jsval list \<Rightarrow> string list" where
  "js_strings [] = []"
| "js_strings (JStr s # vs) = s # js_strings vs"
| "js_strings (v # vs) = js_strings vs"

definition str_array_field :: "(string \<times> jsval) list \<Rightarrow> string \<Rightarrow> string list" where
  "str_array_field b k = (case map_of b k of Some (JArr vs) \<Rightarrow> js_strings vs | _ \<Rightarrow> [])"

text \<open>
  The messages of the TypeError that V8 raises when a property of \<open>undefined\<close> is read.
\<close>

definition type_error :: "string \<Rightarrow> string" where
  "type_error prop = ''Cannot read properties of undefined (reading '' @ [CHR 0x27] @ prop @ [CHR 0x27] @ '')''"

subsection \<open>Farmhouse router\<close>

text \<open>
  Mongoose's \<open>required\<close> validator on the String path \<open>name\<close>, the only required path of
  the Farmhouse schema: an unset or empty value fails with a ValidationError.
\<close>

definition farmhouse_validate :: "string option \<Rightarrow> string + string" where
  "farmhouse_validate name =
     (case name of
        None \<Rightarrow> Inl ''Farmhouse validation failed: name: Path `name` is required.''
      | Some n \<Rightarrow>
          if n = [] then Inl ''Farmhouse validation failed: name: Path `name` is required.''
          else Inr n)"

text \<open>
  \<open>POST /farmhouse\<close>, the handler behind \<open>auth, admin\<close>. \<open>oid\<close> is the ObjectId that the
  driver generates for the new document. The generated \<open>f_id\<close> of the pre-save hook is not
  read by any modelled route and is left out of the record.
\<close>

definition farmhouse_post_handler :: "string \<Rightarrow> handler" where
  "farmhouse_post_handler oid req d =
     (case req_user req of
        None \<Rightarrow> (Responded \<lparr>status = 400, body = ErrorBody (type_error ''id'')\<rparr>, d)
      | Some u \<Rightarrow>
          (case farmhouse_validate (str_field (req_body req) ''Name'') of
             Inl msg \<Rightarrow> (Responded \<lparr>status = 400, body = ErrorBody msg\<rparr>, d)
           | Inr name \<Rightarrow>
               (case fault d of
                  Some msg \<Rightarrow> (Responded \<lparr>status = 400, body = ErrorBody msg\<rparr>, d)
                | None \<Rightarrow>
                    (let farmhouse =
                           \<lparr>fh_id = oid, fh_name = name,
                            fh_manager = str_field (req_body req) ''manager_id'',
                            fh_admin = Some (u_id u),
                            fh_assistants = str_array_field (req_body req) ''assistants'',
                            fh_location = str_field (req_body req) ''location''\<rparr>
                     in (Responded \<lparr>status = 201, body = FarmhouseDoc farmhouse\<rparr>,
                         d\<lparr>farmhouses := farmhouses d @ [farmhouse]\<rparr>)))))"

text \<open>
  \<open>GET /farmhouse/admin\<close>, the handler behind \<open>auth\<close>. The role check stands before the
  \<open>try\<close> block, so reading the role of an absent user is not caught.
\<close>

definition farmhouse_get_admin_handler :: handler where
  "farmhouse_get_admin_handler req d =
     (case req_user req of
        None \<Rightarrow> (Uncaught (type_error ''role''), d)
      | Some u \<Rightarrow>
          if u_role u \<noteq> ''admin''
          then (Responded \<lparr>status = 403, body = ErrorBody ''Access denied. Admins only.''\<rparr>, d)
          else
            (case db_read (\<lambda>d. find_by_admin (u_id u) (farmhouses d)) d of
               Inl msg \<Rightarrow> (Responded \<lparr>status = 500, body = ErrorBody msg\<rparr>, d)
             | Inr fhs \<Rightarrow> (Responded \<lparr>status = 200, body = FarmhouseList fhs\<rparr>, d)))"

text \<open>\<open>findById\<close> and \<open>findByIdAndDelete\<close> on the Farmhouse collection.\<close>

definition farmhouse_findById :: "string \<Rightarrow> farmhouse list \<Rightarrow> farmhouse option" where
  "farmhouse_findById i fhs = find (\<lambda>fh. fh_id fh = i) fhs"

fun remove_first :: "('a \<Rightarrow> bool) \<Rightarrow> 'a list \<Rightarrow> 'a list" where
  "remove_first P [] = []"
| "remove_first P (x # xs) = (if P x then xs else x # remove_first P xs)"

text \<open>\<open>DELETE /farmhouse/:id\<close>, the handler behind the two middleware arguments.\<close>

definition farmhouse_delete_handler :: handler where
  "farmhouse_delete_handler req d =
     (case db_read (\<lambda>d. farmhouse_findById (param req ''id'') (farmhouses d)) d of
        Inl msg \<Rightarrow> (Responded \<lparr>status = 500, body = ErrorBody msg\<rparr>, d)
      | Inr None \<Rightarrow> (Responded \<lparr>status = 404, body = ErrorBody ''Farmhouse not found''\<rparr>, d)
      | Inr (Some farmhouseToDelete) \<Rightarrow>
          (case fh_admin farmhouseToDelete of
             None \<Rightarrow> (Responded \<lparr>status = 500, body = ErrorBody (type_error ''toString'')\<rparr>, d)
           | Some a \<Rightarrow>
               (case req_user req of
                  None \<Rightarrow> (Responded \<lparr>status = 500, body = ErrorBody (type_error ''id'')\<rparr>, d)
                | Some u \<Rightarrow>
                    if a \<noteq> u_id u
                    then (Responded \<lparr>status = 403,
                            body = ErrorBody ''Access denied. You are not the admin of this farmhouse.''\<rparr>, d)
                    else (Responded \<lparr>status = 200, body = MessageBody ''Farmhouse deleted''\<rparr>,
                          d\<lparr>farmhouses := remove_first (\<lambda>fh. fh_id fh = param req ''id'') (farmhouses d)\<rparr>))))"

text \<open>
  The middleware arguments of a route are JavaScript expressions evaluated in the module
  scope when the route is registered. \<open>a || b\<close> yields \<open>a\<close> when \<open>a\<close> is truthy and evaluates
  \<open>b\<close> only otherwise; an identifier without a binding raises a ReferenceError when it is
  evaluated. A function is truthy.
\<close>

datatype mwval = MwFunc middleware | MwUndefined

datatype js_error = ReferenceError string | TypeError string

datatype expr = Ident string | Or expr expr

fun truthy_mw :: "mwval \<Rightarrow> bool" where
  "truthy_mw (MwFunc f) = True"
| "truthy_mw MwUndefined = False"

fun eval :: "(string \<times> mwval) list \<Rightarrow> expr \<Rightarrow> js_error + mwval" where
  "eval scope (Ident x) =
     (case map_of scope x of
        None \<Rightarrow> Inl (ReferenceError (x @ '' is not defined''))
      | Some v \<Rightarrow> Inr v)"
| "eval scope (Or a b) =
     (case eval scope a of
        Inl e \<Rightarrow> Inl e
      | Inr v \<Rightarrow> if truthy_mw v then Inr v else eval scope b)"

text \<open>
  Registration of a route: every middleware argument is evaluated, in order, and each must
  be a function.
\<close>

fun eval_middlewares :: "(string \<times> mwval) list \<Rightarrow> expr list \<Rightarrow> js_error + middleware list" where
  "eval_middlewares scope [] = Inr []"
| "eval_middlewares scope (e # es) =
     (case eval scope e of
        Inl err \<Rightarrow> Inl err
      | Inr MwUndefined \<Rightarrow> Inl (TypeError ''Route.delete() requires a callback function'')
      | Inr (MwFunc f) \<Rightarrow>
          (case eval_middlewares scope es of
             Inl err \<Rightarrow> Inl err
           | Inr fs \<Rightarrow> Inr (f # fs)))"

text \<open>
  The module scope of the farmhouse router: it requires \<open>auth\<close> and \<open>admin\<close> and nothing
  named \<open>superadmin\<close>. Neither middleware file is part of the sources; both are parameters.
\<close>

definition farmhouse_scope :: "middleware \<Rightarrow> middleware \<Rightarrow> (string \<times> mwval) list" where
  "farmhouse_scope auth admin = [(''auth'', MwFunc auth), (''admin'', MwFunc admin)]"

text \<open>\<open>router.delete('/:id', auth, admin || superadmin, handler)\<close>.\<close>

definition farmhouse_delete_route :: "middleware \<Rightarrow> middleware \<Rightarrow> js_error + handler" where
  "farmhouse_delete_route auth admin =
     (case eval_middlewares (farmhouse_scope auth admin)
             [Ident ''auth'', Or (Ident ''admin'') (Ident ''superadmin'')] of
        Inl err \<Rightarrow> Inl err
      | Inr mws \<Rightarrow> Inr (run_chain mws farmhouse_delete_handler))"

text \<open>The routes \<open>POST /farmhouse\<close> and \<open>GET /farmhouse/admin\<close> with their middleware.\<close>

definition farmhouse_post_route :: "middleware \<Rightarrow> middleware \<Rightarrow> string \<Rightarrow> handler" where
  "farmhouse_post_route auth admin oid = run_chain [auth, admin] (farmhouse_post_handler oid)"

definition farmhouse_get_admin_route :: "middleware \<Rightarrow> handler" where
  "farmhouse_get_admin_route auth = run_chain [auth] farmhouse_get_admin_handler"

subsection \<open>Alerts router\<close>

text \<open>\<open>GET /alerts/by-admin/:userId\<close>. The route has no middleware and writes nothing.\<close>

definition alerts_by_admin :: "string \<Rightarrow> db \<Rightarrow> response" where
  "alerts_by_admin userId d =
     (case db_read (\<lambda>d. find_by_admin userId (farmhouses d)) d of
        Inl msg \<Rightarrow> \<lparr>status = 500, body = ErrorBody msg\<rparr>
      | Inr fhs \<Rightarrow>
          if length fhs = 0
          then \<lparr>status = 404, body = ErrorBody ''No farmhouses found for this admin''\<rparr>
          else
            (case db_read alerts d of
               Inl msg \<Rightarrow> \<lparr>status = 500, body = ErrorBody msg\<rparr>
             | Inr als \<Rightarrow>
                 (let farmhouseLocations = filter truthy_str (map fh_location fhs);
                      filteredAlerts = filter (\<lambda>a. al_location a \<in> set farmhouseLocations) als
                  in \<lparr>status = 200, body = AlertList filteredAlerts\<rparr>)))"

text \<open>
  \<open>POST /alerts\<close>, the handler behind \<open>auth, superadmin\<close>. The Alert schema is not part of the
  sources: \<open>validate\<close> stands for its validation on save and returns the message of the
  ValidationError, if any. \<open>oid\<close> is the generated ObjectId. The broadcast of \<open>new_alert\<close>
  on the socket.io instance goes to another channel and is not part of the response.
\<close>

definition alerts_post_handler :: "(alert \<Rightarrow> string option) \<Rightarrow> string \<Rightarrow> handler" where
  "alerts_post_handler validate oid req d =
     (let alert = \<lparr>al_id = oid,
                   al_title = str_field (req_body req) ''title'',
                   al_category = str_field (req_body req) ''category'',
                   al_location = str_field (req_body req) ''location'',
                   al_description = str_field (req_body req) ''description''\<rparr>
      in case validate alert of
           Some msg \<Rightarrow> (Responded \<lparr>status = 400, body = ErrorBody msg\<rparr>, d)
         | None \<Rightarrow>
             (case fault d of
                Some msg \<Rightarrow> (Responded \<lparr>status = 400, body = ErrorBody msg\<rparr>, d)
              | None \<Rightarrow>
                  (Responded \<lparr>status = 201, body = AlertDoc alert\<rparr>,
                   d\<lparr>alerts := alerts d @ [alert]\<rparr>)))"

text \<open>
  \<open>findByIdAndUpdate(id, req.body, { new: true })\<close> on the Alert collection: a path that is
  a key of the body is overwritten, the others are kept.
\<close>

definition upd_field :: "(string \<times> jsval) list \<Rightarrow> string \<Rightarrow> string option \<Rightarrow> string option" where
  "upd_field b k old = (case map_of b k of None \<Rightarrow> old | Some v \<Rightarrow> str_field b k)"

definition alert_update :: "(string \<times> jsval) list \<Rightarrow> alert \<Rightarrow> alert" where
  "alert_update b a =
     a\<lparr>al_title := upd_field b ''title'' (al_title a),
       al_category := upd_field b ''category'' (al_category a),
       al_location := upd_field b ''location'' (al_location a),
       al_description := upd_field b ''description'' (al_description a)\<rparr>"

fun update_first :: "('a \<Rightarrow> bool) \<Rightarrow> ('a \<Rightarrow> 'a) \<Rightarrow> 'a list \<Rightarrow> 'a list" where
  "update_first P f [] = []"
| "update_first P f (x # xs) = (if P x then f x # xs else x # update_first P f xs)"

text \<open>\<open>PUT /alerts/:id\<close> and \<open>PATCH /alerts/:id\<close>; the two handlers have the same text.\<close>

definition alerts_put_handler :: handler where
  "alerts_put_handler req d =
     (case db_read (\<lambda>d. find (\<lambda>a. al_id a = param req ''id'') (alerts d)) d of
        Inl msg \<Rightarrow> (Responded \<lparr>status = 400, body = ErrorBody msg\<rparr>, d)
      | Inr None \<Rightarrow> (Responded \<lparr>status = 404, body = ErrorBody ''Alert not found''\<rparr>, d)
      | Inr (Some a) \<Rightarrow>
          (Responded \<lparr>status = 200, body = AlertDoc (alert_update (req_body req) a)\<rparr>,
           d\<lparr>alerts := update_first (\<lambda>a. al_id a = param req ''id'')
                          (alert_update (req_body req)) (alerts d)\<rparr>))"

definition alerts_patch_handler :: handler where
  "alerts_patch_handler = alerts_put_handler"

text \<open>\<open>DELETE /alerts/:id\<close>.\<close>

definition alerts_delete_handler :: handler where
  "alerts_delete_handler req d =
     (case db_read (\<lambda>d. find (\<lambda>a. al_id a = param req ''id'') (alerts d)) d of
        Inl msg \<Rightarrow> (Responded \<lparr>status = 500, body = ErrorBody msg\<rparr>, d)
      | Inr None \<Rightarrow> (Responded \<lparr>status = 404, body = ErrorBody ''Alert not found''\<rparr>, d)
      | Inr (Some a) \<Rightarrow>
          (Responded \<lparr>status = 200, body = MessageBody ''Alert deleted''\<rparr>,
           d\<lparr>alerts := remove_first (\<lambda>a. al_id a = param req ''id'') (alerts d)\<rparr>))"



text \<open>The alert routes that change the collection, with their middleware.\<close>

definition alerts_post_route ::
  "middleware \<Rightarrow> string \<Rightarrow> (alert \<Rightarrow> string option) \<Rightarrow> string \<Rightarrow> handler" where
  "alerts_post_route auth required validate oid =
     run_chain [auth, superadmin required] (alerts_post_handler validate oid)"

definition alerts_put_route :: "middleware \<Rightarrow> string \<Rightarrow> handler" where
  "alerts_put_route auth required = run_chain [auth, superadmin required] alerts_put_handler"

definition alerts_patch_route :: "middleware \<Rightarrow> string \<Rightarrow> handler" where
  "alerts_patch_route auth required = run_chain [auth, superadmin required] alerts_patch_handler"

definition alerts_delete_route :: "middleware \<Rightarrow> string \<Rightarrow> handler" where
  "alerts_delete_route auth required = run_chain [auth, superadmin required] alerts_delete_handler"

subsection \<open>Resource routers: create and delete\<close>

text \<open>JavaScript truthiness of a parsed JSON value; \<open>!x\<close> for a destructured body key.\<close>

fun truthy :: "jsval \<Rightarrow> bool" where
  "truthy JNull = False"
| "truthy (JBool b) = b"
| "truthy (JNum r) = (r \<noteq> 0)"
| "truthy (JStr s) = (s \<noteq> [])"
| "truthy (JArr vs) = True"
| "truthy (JObj kvs) = True"

definition falsy_key :: "(string \<times> jsval) list \<Rightarrow> string \<Rightarrow> bool" where
  "falsy_key b k = (case map_of b k of None \<Rightarrow> True | Some v \<Rightarrow> \<not> truthy v)"

definition undefined_key :: "(string \<times> jsval) list \<Rightarrow> string \<Rightarrow> bool" where
  "undefined_key b k = (map_of b k = None)"

text \<open>
  JavaScript's ToNumber, with \<open>None\<close> for NaN. The conversion of strings, arrays and objects
  is a language primitive outside the repository and is the parameter \<open>coerce\<close>.
\<close>

definition toNumber :: "(jsval \<Rightarrow> rat option) \<Rightarrow> jsval option \<Rightarrow> rat option" where
  "toNumber coerce v =
     (case v of
        None \<Rightarrow> None
      | Some JNull \<Rightarrow> Some 0
      | Some (JBool b) \<Rightarrow> Some (if b then 1 else 0)
      | Some (JNum r) \<Rightarrow> Some r
      | Some w \<Rightarrow> coerce w)"

definition isNaN :: "(jsval \<Rightarrow> rat option) \<Rightarrow> jsval option \<Rightarrow> bool" where
  "isNaN coerce v = (toNumber coerce v = None)"

text \<open>\<open>x < 0\<close> and \<open>x <= 0\<close>; a comparison with NaN is false.\<close>

definition lt_zero :: "(jsval \<Rightarrow> rat option) \<Rightarrow> jsval option \<Rightarrow> bool" where
  "lt_zero coerce v = (case toNumber coerce v of None \<Rightarrow> False | Some r \<Rightarrow> r < 0)"

definition le_zero :: "(jsval \<Rightarrow> rat option) \<Rightarrow> jsval option \<Rightarrow> bool" where
  "le_zero coerce v = (case toNumber coerce v of None \<Rightarrow> False | Some r \<Rightarrow> r \<le> 0)"

fun is_js_string :: "jsval \<Rightarrow> bool" where
  "is_js_string (JStr s) = True"
| "is_js_string v = False"

text \<open>
  \<open>images && (!Array.isArray(images) || !images.every(img => typeof img === 'string'))\<close>.
\<close>

definition bad_images :: "jsval option \<Rightarrow> bool" where
  "bad_images v =
     (case v of
        None \<Rightarrow> False
      | Some (JArr vs) \<Rightarrow> \<not> list_all is_js_string vs
      | Some w \<Rightarrow> truthy w)"

text \<open>The object literal handed to a model constructor: the listed keys, where defined.\<close>

definition pick :: "string list \<Rightarrow> (string \<times> jsval) list \<Rightarrow> (string \<times> jsval) list" where
  "pick ks b = concat (map (\<lambda>k. case map_of b k of None \<Rightarrow> [] | Some v \<Rightarrow> [(k, v)]) ks)"

text \<open>
  \<open>doc.save()\<close> of a new document. \<open>reject\<close> stands for what Mongoose and the collection's
  indexes refuse beyond the handler's own checks (a value that cannot be converted to the
  type of its path, a duplicate of a unique path) and gives the error message; then the
  driver call itself may fail.
\<close>

definition save_new ::
  "(stored \<Rightarrow> stored list \<Rightarrow> string option) \<Rightarrow> stored \<Rightarrow> stored list \<Rightarrow> string option
   \<Rightarrow> string + stored list" where
  "save_new reject doc coll flt =
     (case reject doc coll of
        Some msg \<Rightarrow> Inl msg
      | None \<Rightarrow> (case flt of Some msg \<Rightarrow> Inl msg | None \<Rightarrow> Inr (coll @ [doc])))"

definition animal_fields :: "string list" where
  "animal_fields = [''tagId'', ''breed'', ''gender'', ''dob'', ''weight'', ''condition'', ''status'',
     ''farmhouse'', ''sireId'', ''damId'', ''acquisitionType'', ''acquisitionDate'', ''origin'',
     ''images'', ''notes'']"

text \<open>\<open>POST /animals\<close>, the handler behind \<open>auth\<close>.\<close>

definition animals_post_handler ::
  "(jsval \<Rightarrow> rat option) \<Rightarrow> (stored \<Rightarrow> stored list \<Rightarrow> string option) \<Rightarrow> string \<Rightarrow> handler" where
  "animals_post_handler coerce reject oid req d =
     (let b = req_body req in
      if falsy_key b ''tagId'' \<or> falsy_key b ''breed'' \<or> falsy_key b ''gender'' \<or> falsy_key b ''dob''
         \<or> falsy_key b ''weight'' \<or> falsy_key b ''condition'' \<or> falsy_key b ''status''
         \<or> falsy_key b ''farmhouse'' \<or> falsy_key b ''acquisitionType''
         \<or> falsy_key b ''acquisitionDate''
      then (Responded \<lparr>status = 400, body = ErrorBody ''Missing required fields''\<rparr>, d)
      else if map_of b ''gender'' \<noteq> Some (JStr ''Male'') \<and> map_of b ''gender'' \<noteq> Some (JStr ''Female'')
      then (Responded \<lparr>status = 400, body = ErrorBody ''Invalid gender''\<rparr>, d)
      else if isNaN coerce (map_of b ''weight'') \<or> le_zero coerce (map_of b ''weight'')
      then (Responded \<lparr>status = 400, body = ErrorBody ''Invalid weight''\<rparr>, d)
      else if bad_images (map_of b ''images'')
      then (Responded \<lparr>status = 400, body = ErrorBody ''Images must be an array of strings''\<rparr>, d)
      else
        (let animal = \<lparr>d_id = oid, d_fields = pick animal_fields b\<rparr>
         in case save_new reject animal (animals d) (fault d) of
              Inl msg \<Rightarrow> (Responded \<lparr>status = 400, body = ErrorBody msg\<rparr>, d)
            | Inr coll \<Rightarrow>
                (Responded \<lparr>status = 201,
                   body = MessageDocBody ''Animal created successfully'' ''animal'' animal\<rparr>,
                 d\<lparr>animals := coll\<rparr>)))"

definition breeding_fields :: "string list" where
  "breeding_fields = [''sireTagId'', ''damTagId'', ''breedingDate'', ''breedingMethod'',
     ''expectedDelivery'', ''actualDelivery'', ''numberOfOffspring'', ''status'', ''cost'',
     ''performedBy'', ''notes'']"

text \<open>\<open>POST /breeding\<close>, the handler behind \<open>auth\<close>.\<close>

definition breeding_post_handler ::
  "(jsval \<Rightarrow> rat option) \<Rightarrow> (stored \<Rightarrow> stored list \<Rightarrow> string option) \<Rightarrow> string \<Rightarrow> handler" where
  "breeding_post_handler coerce reject oid req d =
     (let b = req_body req in
      if falsy_key b ''sireTagId'' \<or> falsy_key b ''damTagId'' \<or> falsy_key b ''breedingDate''
         \<or> falsy_key b ''breedingMethod'' \<or> falsy_key b ''expectedDelivery''
         \<or> falsy_key b ''actualDelivery'' \<or> undefined_key b ''numberOfOffspring''
         \<or> falsy_key b ''status'' \<or> undefined_key b ''cost'' \<or> falsy_key b ''performedBy''
         \<or> falsy_key b ''notes''
      then (Responded \<lparr>status = 400, body = ErrorBody ''All fields are required''\<rparr>, d)
      else if isNaN coerce (map_of b ''numberOfOffspring'') \<or> lt_zero coerce (map_of b ''numberOfOffspring'')
      then (Responded \<lparr>status = 400, body = ErrorBody ''Invalid numberOfOffspring''\<rparr>, d)
      else if isNaN coerce (map_of b ''cost'') \<or> lt_zero coerce (map_of b ''cost'')
      then (Responded \<lparr>status = 400, body = ErrorBody ''Invalid cost''\<rparr>, d)
      else
        (let breeding = \<lparr>d_id = oid, d_fields = pick breeding_fields b\<rparr>
         in case save_new reject breeding (breedings d) (fault d) of
              Inl msg \<Rightarrow> (Responded \<lparr>status = 400, body = ErrorBody msg\<rparr>, d)
            | Inr coll \<Rightarrow>
                (Responded \<lparr>status = 201,
                   body = MessageDocBody ''Breeding record created successfully'' ''breeding'' breeding\<rparr>,
                 d\<lparr>breedings := coll\<rparr>)))"

definition vaccination_fields :: "string list" where
  "vaccination_fields = [''animalTagId'', ''vaccineName'', ''manufacturer'', ''batchNumber'',
     ''vaccinationType'', ''dosage'', ''administrationRoute'', ''administeredBy'', ''treatmentDate'',
     ''expiryDate'', ''nextDueDate'', ''cost'', ''status'', ''sideEffects'', ''notes'']"

text \<open>\<open>POST /vaccinations\<close>, the handler behind \<open>auth\<close>.\<close>

definition vaccinations_post_handler ::
  "(jsval \<Rightarrow> rat option) \<Rightarrow> (stored \<Rightarrow> stored list \<Rightarrow> string option) \<Rightarrow> string \<Rightarrow> handler" where
  "vaccinations_post_handler coerce reject oid req d =
     (let b = req_body req in
      if falsy_key b ''animalTagId'' \<or> falsy_key b ''vaccineName'' \<or> falsy_key b ''manufacturer''
         \<or> falsy_key b ''batchNumber'' \<or> falsy_key b ''vaccinationType'' \<or> falsy_key b ''dosage''
         \<or> falsy_key b ''administrationRoute'' \<or> falsy_key b ''administeredBy''
         \<or> falsy_key b ''treatmentDate'' \<or> falsy_key b ''expiryDate'' \<or> falsy_key b ''nextDueDate''
         \<or> undefined_key b ''cost'' \<or> falsy_key b ''status'' \<or> falsy_key b ''sideEffects''
         \<or> falsy_key b ''notes''
      then (Responded \<lparr>status = 400, body = ErrorBody ''All fields are required''\<rparr>, d)
      else if isNaN coerce (map_of b ''cost'') \<or> lt_zero coerce (map_of b ''cost'')
      then (Responded \<lparr>status = 400, body = ErrorBody ''Invalid cost''\<rparr>, d)
      else
        (let vaccination = \<lparr>d_id = oid, d_fields = pick vaccination_fields b\<rparr>
         in case save_new reject vaccination (vaccinations d) (fault d) of
              Inl msg \<Rightarrow> (Responded \<lparr>status = 400, body = ErrorBody msg\<rparr>, d)
            | Inr coll \<Rightarrow>
                (Responded \<lparr>status = 201,
                   body = MessageDocBody ''Vaccination record created successfully'' ''vaccination''
                            vaccination\<rparr>,
                 d\<lparr>vaccinations := coll\<rparr>)))"

definition health_record_fields :: "string list" where
  "health_record_fields = [''animalTagId'', ''healthIssue'', ''symptoms'', ''diagnosis'', ''treatment'',
     ''veterinarian'', ''treatmentDate'', ''followUpDate'', ''severity'', ''cost'', ''status'',
     ''notes'']"

text \<open>\<open>POST /health-records\<close>, the handler behind \<open>auth\<close>.\<close>

definition healthRecords_post_handler ::
  "(jsval \<Rightarrow> rat option) \<Rightarrow> (stored \<Rightarrow> stored list \<Rightarrow> string option) \<Rightarrow> string \<Rightarrow> handler" where
  "healthRecords_post_handler coerce reject oid req d =
     (let b = req_body req in
      if falsy_key b ''animalTagId'' \<or> falsy_key b ''healthIssue'' \<or> falsy_key b ''symptoms''
         \<or> falsy_key b ''diagnosis'' \<or> falsy_key b ''treatment'' \<or> falsy_key b ''veterinarian''
         \<or> falsy_key b ''treatmentDate'' \<or> falsy_key b ''followUpDate'' \<or> falsy_key b ''severity''
         \<or> undefined_key b ''cost'' \<or> falsy_key b ''status'' \<or> falsy_key b ''notes''
      then (Responded \<lparr>status = 400, body = ErrorBody ''All fields are required''\<rparr>, d)
      else if isNaN coerce (map_of b ''cost'') \<or> lt_zero coerce (map_of b ''cost'')
      then (Responded \<lparr>status = 400, body = ErrorBody ''Invalid cost''\<rparr>, d)
      else
        (let record = \<lparr>d_id = oid, d_fields = pick health_record_fields b\<rparr>
         in case save_new reject record (healthRecords d) (fault d) of
              Inl msg \<Rightarrow> (Responded \<lparr>status = 400, body = ErrorBody msg\<rparr>, d)
            | Inr coll \<Rightarrow>
                (Responded \<lparr>status = 201,
                   body = MessageDocBody ''Health record created successfully'' ''healthRecord'' record\<rparr>,
                 d\<lparr>healthRecords := coll\<rparr>)))"

text \<open>
  The keys that each create handler requires of the body: the ones its first check reads,
  and for the farmhouse the body key of the schema's only required path.
\<close>

definition animal_required :: "string list" where
  "animal_required = [''tagId'', ''breed'', ''gender'', ''dob'', ''weight'', ''condition'', ''status'',
     ''farmhouse'', ''acquisitionType'', ''acquisitionDate'']"

definition farmhouse_required :: "string list" where
  "farmhouse_required = [''Name'']"

text \<open>A key of the list is missing from the body.\<close>

definition missing_key :: "string list \<Rightarrow> (string \<times> jsval) list \<Rightarrow> bool" where
  "missing_key ks b = list_ex (\<lambda>k. map_of b k = None) ks"

text \<open>The response is 400 with an error string.\<close>

fun is_400 :: "outcome \<Rightarrow> bool" where
  "is_400 (Responded r) = (status r = 400 \<and> (case body r of ErrorBody msg \<Rightarrow> True | _ \<Rightarrow> False))"
| "is_400 (Uncaught msg) = False"






subsection \<open>FarmhouseUsers router\<close>

text \<open>
  The router has one add and one remove handler for assistants and the same two for
  managers; the texts differ in the list they touch, the body key and the words of the
  messages. The four are written once here, over the list that is meant. Path and body
  identifiers are the canonical strings of ObjectIds; the response shows the document
  before \<open>populate\<close> replaces identifiers by user documents.
\<close>

datatype fu_list = Assistants | Managers

fun fu_get :: "fu_list \<Rightarrow> farmhouse_users \<Rightarrow> string list" where
  "fu_get Assistants doc = fu_assistants doc"
| "fu_get Managers doc = fu_managers doc"

fun fu_set :: "fu_list \<Rightarrow> string list \<Rightarrow> farmhouse_users \<Rightarrow> farmhouse_users" where
  "fu_set Assistants xs doc = doc\<lparr>fu_assistants := xs\<rparr>"
| "fu_set Managers xs doc = doc\<lparr>fu_managers := xs\<rparr>"

fun fu_key :: "fu_list \<Rightarrow> string" where
  "fu_key Assistants = ''assistantId''"
| "fu_key Managers = ''managerId''"

fun fu_label :: "fu_list \<Rightarrow> string" where
  "fu_label Assistants = ''AssistantId''"
| "fu_label Managers = ''ManagerId''"

definition msg_created :: "fu_list \<Rightarrow> string \<Rightarrow> string \<Rightarrow> string" where
  "msg_created l adminId i =
     ''FarmhouseUsers created for adminId '' @ adminId @ '' and '' @ fu_key l @ '' '' @ i @ '' added.''"

definition msg_added :: "fu_list \<Rightarrow> string \<Rightarrow> string \<Rightarrow> string" where
  "msg_added l adminId i =
     fu_label l @ '' '' @ i @ '' added to FarmhouseUsers of adminId '' @ adminId @ ''.''"

definition msg_exists :: "fu_list \<Rightarrow> string \<Rightarrow> string \<Rightarrow> string" where
  "msg_exists l adminId i =
     fu_label l @ '' '' @ i @ '' already exists in FarmhouseUsers of adminId '' @ adminId @ ''.''"




text \<open>\<open>FarmhouseUsers.findOne({ adminId })\<close>.\<close>

definition fu_findOne :: "string \<Rightarrow> farmhouse_users list \<Rightarrow> farmhouse_users option" where
  "fu_findOne adminId coll = find (\<lambda>x. fu_adminId x = adminId) coll"

text \<open>
  \<open>save()\<close> of a new record: the unique index on \<open>adminId\<close> refuses a second record for
  the same admin with a duplicate-key error.
\<close>

definition fu_insert :: "farmhouse_users \<Rightarrow> farmhouse_users list \<Rightarrow> string + farmhouse_users list" where
  "fu_insert doc coll =
     (if list_ex (\<lambda>x. fu_adminId x = fu_adminId doc) coll
      then Inl ''E11000 duplicate key error collection: farmhouseusers index: adminId_1''
      else Inr (coll @ [doc]))"

text \<open>\<open>save()\<close> of the record that \<open>findOne\<close> returned, after a change of one of its lists.\<close>

definition fu_save ::
  "string \<Rightarrow> (farmhouse_users \<Rightarrow> farmhouse_users) \<Rightarrow> farmhouse_users list \<Rightarrow> farmhouse_users list" where
  "fu_save adminId f coll = update_first (\<lambda>x. fu_adminId x = adminId) f coll"

text \<open>
  \<open>POST /farmhouse-users/:adminId/assistant\<close> and \<open>.../manager\<close>, the handlers behind
  \<open>auth, admin\<close>. A truthy body value that is not a string cannot be cast to an ObjectId.
\<close>

definition fu_add_handler :: "fu_list \<Rightarrow> handler" where
  "fu_add_handler l req d =
     (let adminId = param req ''adminId''
      in if falsy_key (req_body req) (fu_key l)
         then (Responded \<lparr>status = 400, body = ErrorBody (fu_key l @ '' required'')\<rparr>, d)
         else
           (case db_read (\<lambda>d. fu_findOne adminId (farmhouseUsers d)) d of
              Inl msg \<Rightarrow> (Responded \<lparr>status = 500, body = ErrorBody msg\<rparr>, d)
            | Inr found \<Rightarrow>
                (case map_of (req_body req) (fu_key l) of
                   Some (JStr i) \<Rightarrow>
                     (case found of
                        None \<Rightarrow>
                          (let doc = fu_set l [i] \<lparr>fu_adminId = adminId, fu_managers = [], fu_assistants = []\<rparr>
                           in case fu_insert doc (farmhouseUsers d) of
                                Inl msg \<Rightarrow> (Responded \<lparr>status = 500, body = ErrorBody msg\<rparr>, d)
                              | Inr coll \<Rightarrow>
                                  (Responded \<lparr>status = 200,
                                     body = FarmhouseUserBody (msg_created l adminId i) doc\<rparr>,
                                   d\<lparr>farmhouseUsers := coll\<rparr>))
                      | Some doc \<Rightarrow>
                          if i \<notin> set (fu_get l doc)
                          then
                            (Responded \<lparr>status = 200,
                               body = FarmhouseUserBody (msg_added l adminId i)
                                        (fu_set l (fu_get l doc @ [i]) doc)\<rparr>,
                             d\<lparr>farmhouseUsers :=
                                 fu_save adminId (\<lambda>x. fu_set l (fu_get l x @ [i]) x) (farmhouseUsers d)\<rparr>)
                          else
                            (Responded \<lparr>status = 200,
                               body = FarmhouseUserBody (msg_exists l adminId i) doc\<rparr>, d))
                 | _ \<Rightarrow>
                     (Responded \<lparr>status = 500,
                        body = ErrorBody (''Cast to ObjectId failed at path '' @ fu_key l)\<rparr>, d))))"


definition add_assistant :: handler where
  "add_assistant = fu_add_handler Assistants"

definition add_manager :: handler where
  "add_manager = fu_add_handler Managers"




subsection \<open>CSV export and import\<close>






























section \<open>Verification\<close>

lemma empty_db_simps [simp]:
  "farmhouses empty_db = []" "alerts empty_db = []" "animals empty_db = []"
  "breedings empty_db = []" "vaccinations empty_db = []" "healthRecords empty_db = []"
  "farmhouseUsers empty_db = []" "fault empty_db = None"
  by (simp_all add: empty_db_def)

subsection \<open>Visibility computation\<close>

lemma owned_filter:
  "(if role = ''admin'' then find_by_admin userId fhs
    else if role = ''manager'' then find_by_manager userId fhs
    else if role = ''assistant'' then find_by_assistant userId fhs
    else []) = filter (owns role userId) fhs"
  by (auto simp: find_by_admin_def find_by_manager_def find_by_assistant_def owns_def
      intro: filter_cong)

lemma truthy_str_iff: "truthy_str x \<longleftrightarrow> (\<exists>l. x = Some l \<and> l \<noteq> [])"
  by (cases x) auto

lemma location_member_iff:
  "al_location a \<in> set (filter truthy_str (map fh_location (filter (owns role userId) fhs)))
   \<longleftrightarrow> (\<exists>l \<in> owned_locations role userId fhs. al_location a = Some l)"
proof
  assume "al_location a \<in> set (filter truthy_str (map fh_location (filter (owns role userId) fhs)))"
  then obtain fh where fh: "fh \<in> set fhs" "owns role userId fh" "al_location a = fh_location fh"
    and t: "truthy_str (al_location a)"
    by auto
  from t obtain l where l: "al_location a = Some l" "l \<noteq> []"
    by (auto simp: truthy_str_iff)
  with fh have "l \<in> owned_locations role userId fhs"
    by (auto simp: owned_locations_def)
  with l show "\<exists>l \<in> owned_locations role userId fhs. al_location a = Some l"
    by blast
next
  assume "\<exists>l \<in> owned_locations role userId fhs. al_location a = Some l"
  then obtain l fh where l: "al_location a = Some l" "l \<noteq> []"
    and fh: "fh \<in> set fhs" "owns role userId fh" "fh_location fh = Some l"
    by (auto simp: owned_locations_def)
  then have "fh_location fh \<in> set (map fh_location (filter (owns role userId) fhs))"
    by (auto intro!: image_eqI [where x = fh])
  with l fh show "al_location a \<in> set (filter truthy_str (map fh_location (filter (owns role userId) fhs)))"
    by simp
qed

lemma owned_locations_empty:
  "filter (owns role userId) fhs = [] \<Longrightarrow> owned_locations role userId fhs = {}"
  by (auto simp: owned_locations_def filter_empty_conv)

text \<open>
  Claim C1. For every role, user and pair of collections, the alert list computed for a
  socket client is the reference one: the alerts whose location is a non-empty location of a
  farmhouse owned by the user in that role. A user who owns no farmhouse gets the empty
  list, and no alert with an empty or absent location is ever delivered, so an alert that
  matches only an empty farmhouse location is excluded. The statement holds for every role
  string, the three roles of the claim included.
\<close>

theorem getFilteredAlerts_refines_spec:
  "getFilteredAlerts role userId fhs als = spec_visible_alerts role userId fhs als
   \<and> ((\<forall>fh \<in> set fhs. \<not> owns role userId fh) \<longrightarrow> getFilteredAlerts role userId fhs als = [])
   \<and> (\<forall>a \<in> set (getFilteredAlerts role userId fhs als). al_location a \<noteq> Some [] \<and> al_location a \<noteq> None)"
proof -
  have eq: "getFilteredAlerts role userId fhs als = spec_visible_alerts role userId fhs als"
  proof (cases "filter (owns role userId) fhs = []")
    case True
    then show ?thesis
      by (simp add: getFilteredAlerts_def owned_filter spec_visible_alerts_def
          owned_locations_empty)
  next
    case False
    then show ?thesis
      by (simp only: getFilteredAlerts_def owned_filter spec_visible_alerts_def
          location_member_iff Let_def length_0_conv if_False)
  qed
  have none: "(\<forall>fh \<in> set fhs. \<not> owns role userId fh) \<longrightarrow> getFilteredAlerts role userId fhs als = []"
    by (simp add: getFilteredAlerts_def owned_filter filter_empty_conv)
  have nonempty: "\<forall>a \<in> set (getFilteredAlerts role userId fhs als). al_location a \<noteq> Some [] \<and> al_location a \<noteq> None"
    unfolding eq by (auto simp: spec_visible_alerts_def owned_locations_def)
  from eq none nonempty show ?thesis by blast
qed

theorem getFilteredAlerts_refines_spec_witness:
  "spec_visible_alerts ''admin'' ''a1''
     [\<lparr>fh_id = ''f1'', fh_name = ''North'', fh_manager = Some ''m1'', fh_admin = Some ''a1'',
        fh_assistants = [''s1''], fh_location = Some ''Lahore''\<rparr>,
      \<lparr>fh_id = ''f2'', fh_name = ''South'', fh_manager = None, fh_admin = Some ''a1'',
        fh_assistants = [], fh_location = Some []\<rparr>]
     [\<lparr>al_id = ''x1'', al_title = Some ''Flood'', al_category = None,
        al_location = Some ''Lahore'', al_description = None\<rparr>,
      \<lparr>al_id = ''x2'', al_title = Some ''Heat'', al_category = None,
        al_location = Some [], al_description = None\<rparr>,
      \<lparr>al_id = ''x3'', al_title = Some ''Storm'', al_category = None,
        al_location = Some ''Karachi'', al_description = None\<rparr>]
   = [\<lparr>al_id = ''x1'', al_title = Some ''Flood'', al_category = None,
        al_location = Some ''Lahore'', al_description = None\<rparr>]
   \<and> getFilteredAlerts ''assistant'' ''s9''
     [\<lparr>fh_id = ''f1'', fh_name = ''North'', fh_manager = Some ''m1'', fh_admin = Some ''a1'',
        fh_assistants = [''s1''], fh_location = Some ''Lahore''\<rparr>]
     [\<lparr>al_id = ''x1'', al_title = Some ''Flood'', al_category = None,
        al_location = Some ''Lahore'', al_description = None\<rparr>]
   = []"
proof -
  let ?f1 = "\<lparr>fh_id = ''f1'', fh_name = ''North'', fh_manager = Some ''m1'', fh_admin = Some ''a1'',
        fh_assistants = [''s1''], fh_location = Some ''Lahore''\<rparr>"
  let ?f2 = "\<lparr>fh_id = ''f2'', fh_name = ''South'', fh_manager = None, fh_admin = Some ''a1'',
        fh_assistants = [], fh_location = Some []\<rparr>"
  let ?x1 = "\<lparr>al_id = ''x1'', al_title = Some ''Flood'', al_category = None,
        al_location = Some ''Lahore'', al_description = None\<rparr>"
  let ?x2 = "\<lparr>al_id = ''x2'', al_title = Some ''Heat'', al_category = None,
        al_location = Some [], al_description = None\<rparr>"
  let ?x3 = "\<lparr>al_id = ''x3'', al_title = Some ''Storm'', al_category = None,
        al_location = Some ''Karachi'', al_description = None\<rparr>"
  have a: "spec_visible_alerts ''admin'' ''a1'' [?f1, ?f2] [?x1, ?x2, ?x3] = [?x1]"
    using getFilteredAlerts_refines_spec [of "''admin''" "''a1''" "[?f1, ?f2]" "[?x1, ?x2, ?x3]"]
    by (simp add: getFilteredAlerts_def find_by_admin_def)
  have none: "\<forall>fh \<in> set [?f1]. \<not> owns ''assistant'' ''s9'' fh"
    by (simp add: owns_def)
  from getFilteredAlerts_refines_spec [of "''assistant''" "''s9''" "[?f1]" "[?x1]"] none
  have b: "getFilteredAlerts ''assistant'' ''s9'' [?f1] [?x1] = []"
    by blast
  from a b show ?thesis
    by (rule conjI)
qed

subsection \<open>Connection protocol and change events\<close>

lemma strip_prefix_iff: "strip_prefix p s = Some r \<longleftrightarrow> s = p @ r"
  by (induction p s rule: strip_prefix.induct) auto

lemma strip_prefix_append: "strip_prefix p (p @ r) = Some r"
  by (simp add: strip_prefix_iff)

lemma match_role_tail_iff:
  "match_role_tail role s = Some (r, u)
   \<longleftrightarrow> r = role \<and> s = role @ ''/'' @ u \<and> u \<noteq> [] \<and> list_all word_char u"
proof
  assume "match_role_tail role s = Some (r, u)"
  then show "r = role \<and> s = role @ ''/'' @ u \<and> u \<noteq> [] \<and> list_all word_char u"
    by (auto simp: match_role_tail_def strip_prefix_iff split: option.splits if_splits)
next
  assume a: "r = role \<and> s = role @ ''/'' @ u \<and> u \<noteq> [] \<and> list_all word_char u"
  then have "strip_prefix role s = Some (''/'' @ u)"
    by (simp only: strip_prefix_append)
  moreover have "strip_prefix ''/'' (''/'' @ u) = Some u"
    by (simp only: strip_prefix_append)
  ultimately show "match_role_tail role s = Some (r, u)"
    using a by (simp add: match_role_tail_def)
qed

lemma match_role_tail_None:
  "match_role_tail role s = None
   \<longleftrightarrow> \<not> (\<exists>u. s = role @ ''/'' @ u \<and> u \<noteq> [] \<and> list_all word_char u)"
proof (cases "match_role_tail role s")
  case None
  then show ?thesis
    using match_role_tail_iff [of role s role] by auto
next
  case (Some m)
  then show ?thesis
    using match_role_tail_iff [of role s "fst m" "snd m"] by auto
qed

lemma first_match_roles_iff:
  "first_match [''admin'', ''manager'', ''assistant''] s = Some (r, u)
   \<longleftrightarrow> (r = ''admin'' \<or> r = ''manager'' \<or> r = ''assistant'')
       \<and> s = r @ ''/'' @ u \<and> u \<noteq> [] \<and> list_all word_char u"
proof -
  have adm: "match_role_tail ''admin'' s = None" if "s = ''manager'' @ ''/'' @ v \<or> s = ''assistant'' @ ''/'' @ v" for v
    using that by (auto simp: match_role_tail_None)
  have man: "match_role_tail ''manager'' s = None" if "s = ''assistant'' @ ''/'' @ v" for v
    using that by (auto simp: match_role_tail_None)
  show ?thesis
  proof
    assume "first_match [''admin'', ''manager'', ''assistant''] s = Some (r, u)"
    then show "(r = ''admin'' \<or> r = ''manager'' \<or> r = ''assistant'')
       \<and> s = r @ ''/'' @ u \<and> u \<noteq> [] \<and> list_all word_char u"
      by (auto simp: match_role_tail_iff split: option.splits)
  next
    assume a: "(r = ''admin'' \<or> r = ''manager'' \<or> r = ''assistant'')
       \<and> s = r @ ''/'' @ u \<and> u \<noteq> [] \<and> list_all word_char u"
    then have m: "match_role_tail r s = Some (r, u)"
      by (simp only: match_role_tail_iff) simp
    from a consider "r = ''admin''" | "r = ''manager''" | "r = ''assistant''"
      by blast
    then show "first_match [''admin'', ''manager'', ''assistant''] s = Some (r, u)"
    proof cases
      case 1
      with m show ?thesis by simp
    next
      case 2
      with a have "match_role_tail ''admin'' s = None"
        using adm [of u] by simp
      with m 2 show ?thesis by simp
    next
      case 3
      with a have "match_role_tail ''admin'' s = None" "match_role_tail ''manager'' s = None"
        using adm [of u] man [of u] by simp_all
      with m 3 show ?thesis by simp
    qed
  qed
qed

lemma match_alerts_url_iff:
  "match_alerts_url url = Some (role, userId) \<longleftrightarrow> well_formed_path url role userId"
proof
  assume "match_alerts_url url = Some (role, userId)"
  then show "well_formed_path url role userId"
    by (auto simp: match_alerts_url_def well_formed_path_def strip_prefix_iff
        first_match_roles_iff simp del: first_match.simps split: option.splits)
next
  assume w: "well_formed_path url role userId"
  then have "strip_prefix ''/alerts/'' url = Some (role @ ''/'' @ userId)"
    unfolding well_formed_path_def by (simp only: strip_prefix_append)
  moreover from w have "first_match [''admin'', ''manager'', ''assistant''] (role @ ''/'' @ userId)
     = Some (role, userId)"
    unfolding well_formed_path_def by (simp only: first_match_roles_iff) simp
  ultimately show "match_alerts_url url = Some (role, userId)"
    by (simp add: match_alerts_url_def del: first_match.simps)
qed

lemma match_alerts_url_None:
  "match_alerts_url url = None \<longleftrightarrow> \<not> (\<exists>role userId. well_formed_path url role userId)"
proof (cases "match_alerts_url url")
  case None
  then show ?thesis
    using match_alerts_url_iff [of url] by auto
next
  case (Some m)
  then show ?thesis
    using match_alerts_url_iff [of url "fst m" "snd m"] by auto
qed

text \<open>
  Claim C4. A connection whose URL is not of the exact form \<open>/alerts/{role}/{userId}\<close>, with
  one of the three literal roles and a non-empty run of word characters as user, is closed
  at once with no message sent and no subscription opened. For a URL of that form the
  handler leaves the connection open and has sent exactly one message, the alert array
  visible to that role and user, when the change-stream subscription starts.
\<close>

theorem connection_protocol:
  "(\<not> (\<exists>role userId. well_formed_path url role userId)
      \<longrightarrow> on_connection url fhs als = \<lparr>closed = True, sent = [], watching = None\<rparr>)
   \<and> (\<forall>role userId. well_formed_path url role userId
      \<longrightarrow> on_connection url fhs als =
            \<lparr>closed = False, sent = [JsonAlerts (getFilteredAlerts role userId fhs als)],
             watching = Some (role, userId)\<rparr>)"
proof (intro conjI impI allI)
  assume "\<not> (\<exists>role userId. well_formed_path url role userId)"
  then have "match_alerts_url url = None"
    by (simp add: match_alerts_url_None)
  then show "on_connection url fhs als = \<lparr>closed = True, sent = [], watching = None\<rparr>"
    by (simp add: on_connection_def)
next
  fix role userId
  assume "well_formed_path url role userId"
  then have "match_alerts_url url = Some (role, userId)"
    by (simp add: match_alerts_url_iff)
  then show "on_connection url fhs als =
            \<lparr>closed = False, sent = [JsonAlerts (getFilteredAlerts role userId fhs als)],
             watching = Some (role, userId)\<rparr>"
    by (simp add: on_connection_def sendAlerts_def)
qed

theorem connection_protocol_witness:
  "on_connection ''/alerts/manager/u_42'' [] [] =
     \<lparr>closed = False, sent = [JsonAlerts []], watching = Some (''manager'', ''u_42'')\<rparr>
   \<and> on_connection ''/alerts/owner/u_42'' [] [] = \<lparr>closed = True, sent = [], watching = None\<rparr>"
proof -
  have wf: "well_formed_path ''/alerts/manager/u_42'' ''manager'' ''u_42''"
    by (simp add: well_formed_path_def word_char_def)
  have nwf: "\<not> (\<exists>role userId. well_formed_path ''/alerts/owner/u_42'' role userId)"
    by (auto simp: well_formed_path_def)
  have g: "getFilteredAlerts ''manager'' ''u_42'' [] [] = []"
    by (simp add: getFilteredAlerts_def find_by_manager_def)
  from connection_protocol [of "''/alerts/manager/u_42''" "[]" "[]"] wf g
  have a: "on_connection ''/alerts/manager/u_42'' [] [] =
     \<lparr>closed = False, sent = [JsonAlerts []], watching = Some (''manager'', ''u_42'')\<rparr>"
    by metis
  from connection_protocol [of "''/alerts/owner/u_42''" "[]" "[]"] nwf
  have b: "on_connection ''/alerts/owner/u_42'' [] [] = \<lparr>closed = True, sent = [], watching = None\<rparr>"
    by blast
  from a b show ?thesis by simp
qed

text \<open>
  Claim C3. On a connection with an open subscription, a change event whose operation type
  is insert, update, replace or delete appends exactly one message: the whole visible alert
  array, recomputed from the collections as they are at the event, the same message that a
  fresh connection on the same path would receive. Any other operation type sends nothing.
\<close>

theorem change_event_resend:
  assumes "watching c = Some (role, userId)" and "well_formed_path url role userId"
  shows "(operationType \<in> {''insert'', ''update'', ''replace'', ''delete''}
          \<longrightarrow> deliver_change operationType fhs als c =
                c\<lparr>sent := sent c @ [JsonAlerts (getFilteredAlerts role userId fhs als)]\<rparr>
              \<and> sent (on_connection url fhs als) =
                [JsonAlerts (getFilteredAlerts role userId fhs als)])
       \<and> (operationType \<notin> {''insert'', ''update'', ''replace'', ''delete''}
          \<longrightarrow> deliver_change operationType fhs als c = c)"
proof -
  from assms(2) have "match_alerts_url url = Some (role, userId)"
    by (simp add: match_alerts_url_iff)
  then have "sent (on_connection url fhs als) = [JsonAlerts (getFilteredAlerts role userId fhs als)]"
    by (simp add: on_connection_def sendAlerts_def)
  with assms(1) show ?thesis
    by (simp add: deliver_change_def on_change_def sendAlerts_def)
qed

theorem change_event_resend_witness:
  "deliver_change ''delete'' [] []
     \<lparr>closed = False, sent = [JsonAlerts []], watching = Some (''admin'', ''a1'')\<rparr>
   = \<lparr>closed = False, sent = [JsonAlerts [], JsonAlerts []], watching = Some (''admin'', ''a1'')\<rparr>
   \<and> deliver_change ''invalidate'' [] []
     \<lparr>closed = False, sent = [JsonAlerts []], watching = Some (''admin'', ''a1'')\<rparr>
   = \<lparr>closed = False, sent = [JsonAlerts []], watching = Some (''admin'', ''a1'')\<rparr>"
proof -
  let ?c = "\<lparr>closed = False, sent = [JsonAlerts []], watching = Some (''admin'', ''a1'')\<rparr>"
  have w: "watching ?c = Some (''admin'', ''a1'')"
    by simp
  have wf: "well_formed_path ''/alerts/admin/a1'' ''admin'' ''a1''"
    by (simp add: well_formed_path_def word_char_def)
  have g: "getFilteredAlerts ''admin'' ''a1'' [] [] = []"
    by (simp add: getFilteredAlerts_def find_by_admin_def)
  from change_event_resend [OF w wf, of "''delete''" "[]" "[]"] g
  have a: "deliver_change ''delete'' [] [] ?c = ?c\<lparr>sent := sent ?c @ [JsonAlerts []]\<rparr>"
    by simp
  from change_event_resend [OF w wf, of "''invalidate''" "[]" "[]"]
  have b: "deliver_change ''invalidate'' [] [] ?c = ?c"
    by simp
  from a b show ?thesis by simp
qed

subsection \<open>Socket feed and by-admin route\<close>

lemma getFilteredAlerts_admin_member:
  "a \<in> set (getFilteredAlerts ''admin'' A fhs als)
   \<longleftrightarrow> a \<in> set als \<and> (\<exists>fh \<in> set fhs. \<exists>l. l \<noteq> [] \<and> fh_admin fh = Some A
          \<and> fh_location fh = Some l \<and> al_location a = Some l)"
proof (cases "find_by_admin A fhs = []")
  case True
  then have "\<forall>fh \<in> set fhs. fh_admin fh \<noteq> Some A"
    by (simp add: find_by_admin_def filter_empty_conv)
  with True show ?thesis
    by (auto simp: getFilteredAlerts_def)
next
  case False
  have "al_location a \<in> set (filter truthy_str (map fh_location (find_by_admin A fhs)))
    \<longleftrightarrow> (\<exists>fh \<in> set fhs. \<exists>l. l \<noteq> [] \<and> fh_admin fh = Some A
          \<and> fh_location fh = Some l \<and> al_location a = Some l)"
  proof
    assume "al_location a \<in> set (filter truthy_str (map fh_location (find_by_admin A fhs)))"
    then obtain fh where "fh \<in> set fhs" "fh_admin fh = Some A" "al_location a = fh_location fh"
      "truthy_str (fh_location fh)"
      by (auto simp: find_by_admin_def)
    then show "\<exists>fh \<in> set fhs. \<exists>l. l \<noteq> [] \<and> fh_admin fh = Some A
          \<and> fh_location fh = Some l \<and> al_location a = Some l"
      by (cases "fh_location fh") auto
  next
    assume "\<exists>fh \<in> set fhs. \<exists>l. l \<noteq> [] \<and> fh_admin fh = Some A
          \<and> fh_location fh = Some l \<and> al_location a = Some l"
    then obtain fh l where h: "fh \<in> set fhs" "l \<noteq> []" "fh_admin fh = Some A"
      "fh_location fh = Some l" "al_location a = Some l"
      by blast
    then have "fh \<in> set (find_by_admin A fhs)"
      by (simp add: find_by_admin_def)
    then have "fh_location fh \<in> set (map fh_location (find_by_admin A fhs))"
      by (auto intro!: image_eqI [where x = fh])
    with h show "al_location a \<in> set (filter truthy_str (map fh_location (find_by_admin A fhs)))"
      by simp
  qed
  with False show ?thesis
    by (simp add: getFilteredAlerts_def)
qed

text \<open>
  Claim C2, as amended. Let admin \<open>A\<close> own at least one farmhouse and let the database answer.
  Then \<open>GET /alerts/by-admin/A\<close> responds 200 with exactly the alert list that the socket
  feed for role admin and user \<open>A\<close> computes, and an alert of the collection is in that list
  if and only if its location is the non-empty location \<open>L\<close> of some farmhouse whose admin is
  \<open>A\<close>. An alert that matches no farmhouse of \<open>A\<close> is therefore in neither.
\<close>

theorem admin_feed_equals_by_admin_route:
  assumes "fault d = None" and "\<exists>fh \<in> set (farmhouses d). fh_admin fh = Some A"
  shows "alerts_by_admin A d =
           \<lparr>status = 200, body = AlertList (getFilteredAlerts ''admin'' A (farmhouses d) (alerts d))\<rparr>
         \<and> (\<forall>a \<in> set (alerts d).
              a \<in> set (getFilteredAlerts ''admin'' A (farmhouses d) (alerts d))
              \<longleftrightarrow> (\<exists>fh \<in> set (farmhouses d). \<exists>L. L \<noteq> [] \<and> fh_admin fh = Some A
                     \<and> fh_location fh = Some L \<and> al_location a = Some L))"
proof -
  from assms(2) have ne: "find_by_admin A (farmhouses d) \<noteq> []"
    by (auto simp: find_by_admin_def filter_empty_conv)
  with assms(1) have "alerts_by_admin A d =
           \<lparr>status = 200, body = AlertList (getFilteredAlerts ''admin'' A (farmhouses d) (alerts d))\<rparr>"
    by (simp add: alerts_by_admin_def db_read_def getFilteredAlerts_def)
  then show ?thesis
    by (simp add: getFilteredAlerts_admin_member)
qed

theorem admin_feed_equals_by_admin_route_witness:
  "alerts_by_admin ''A1''
     (empty_db\<lparr>farmhouses :=
        [\<lparr>fh_id = ''f1'', fh_name = ''North'', fh_manager = None, fh_admin = Some ''A1'',
           fh_assistants = [], fh_location = Some ''Lahore''\<rparr>],
      alerts :=
        [\<lparr>al_id = ''x1'', al_title = Some ''Flood'', al_category = None,
           al_location = Some ''Lahore'', al_description = None\<rparr>,
         \<lparr>al_id = ''x3'', al_title = Some ''Storm'', al_category = None,
           al_location = Some ''Karachi'', al_description = None\<rparr>]\<rparr>)
   = \<lparr>status = 200,
      body = AlertList
        [\<lparr>al_id = ''x1'', al_title = Some ''Flood'', al_category = None,
           al_location = Some ''Lahore'', al_description = None\<rparr>]\<rparr>"
proof -
  let ?d = "(empty_db\<lparr>farmhouses :=
        [\<lparr>fh_id = ''f1'', fh_name = ''North'', fh_manager = None, fh_admin = Some ''A1'',
           fh_assistants = [], fh_location = Some ''Lahore''\<rparr>],
      alerts :=
        [\<lparr>al_id = ''x1'', al_title = Some ''Flood'', al_category = None,
           al_location = Some ''Lahore'', al_description = None\<rparr>,
         \<lparr>al_id = ''x3'', al_title = Some ''Storm'', al_category = None,
           al_location = Some ''Karachi'', al_description = None\<rparr>]\<rparr>)"
  have h1: "fault ?d = None"
    by simp
  have h2: "\<exists>fh \<in> set (farmhouses ?d). fh_admin fh = Some ''A1''"
    by simp
  from admin_feed_equals_by_admin_route [OF h1 h2] show ?thesis
    by (simp add: getFilteredAlerts_def find_by_admin_def)
qed

text \<open>
  The claim as stated, for every location \<open>L\<close>, fails at the empty string: a farmhouse of
  admin \<open>A1\<close> with location \<open>""\<close> and an alert with location \<open>""\<close> match, yet
  \<open>filter(Boolean)\<close> drops the empty location, so the alert is neither in the socket feed
  nor in the 200 response of the route.
\<close>

theorem empty_location_counterexample:
  "fh_admin \<lparr>fh_id = ''f1'', fh_name = ''North'', fh_manager = None, fh_admin = Some ''A1'',
      fh_assistants = [], fh_location = Some []\<rparr> = Some ''A1''
   \<and> al_location \<lparr>al_id = ''x1'', al_title = Some ''Flood'', al_category = None,
      al_location = Some [], al_description = None\<rparr>
     = fh_location \<lparr>fh_id = ''f1'', fh_name = ''North'', fh_manager = None, fh_admin = Some ''A1'',
      fh_assistants = [], fh_location = Some []\<rparr>
   \<and> \<lparr>al_id = ''x1'', al_title = Some ''Flood'', al_category = None,
        al_location = Some [], al_description = None\<rparr>
      \<notin> set (getFilteredAlerts ''admin'' ''A1''
          [\<lparr>fh_id = ''f1'', fh_name = ''North'', fh_manager = None, fh_admin = Some ''A1'',
             fh_assistants = [], fh_location = Some []\<rparr>]
          [\<lparr>al_id = ''x1'', al_title = Some ''Flood'', al_category = None,
             al_location = Some [], al_description = None\<rparr>])
   \<and> alerts_by_admin ''A1''
        (empty_db\<lparr>farmhouses :=
           [\<lparr>fh_id = ''f1'', fh_name = ''North'', fh_manager = None, fh_admin = Some ''A1'',
              fh_assistants = [], fh_location = Some []\<rparr>],
         alerts :=
           [\<lparr>al_id = ''x1'', al_title = Some ''Flood'', al_category = None,
              al_location = Some [], al_description = None\<rparr>]\<rparr>)
      = \<lparr>status = 200, body = AlertList []\<rparr>"
  by (simp add: getFilteredAlerts_def find_by_admin_def alerts_by_admin_def db_read_def)

subsection \<open>The guard of the farmhouse delete route\<close>

lemma or_guard_value:
  "eval (farmhouse_scope auth admin) (Or (Ident ''admin'') (Ident ''superadmin'')) = Inr (MwFunc admin)"
  by (simp add: farmhouse_scope_def)

lemma superadmin_unbound:
  "eval (farmhouse_scope auth admin) (Ident ''superadmin'')
       = Inl (ReferenceError ''superadmin is not defined'')"
  by (simp add: farmhouse_scope_def)

lemma auth_value:
  "eval (farmhouse_scope auth admin) (Ident ''auth'') = Inr (MwFunc auth)"
  by (simp add: farmhouse_scope_def)

lemma delete_route_chain:
  "farmhouse_delete_route auth admin = Inr (run_chain [auth, admin] farmhouse_delete_handler)"
  unfolding farmhouse_delete_route_def
  by (simp add: or_guard_value auth_value del: eval.simps)

lemma chain_reject:
  "auth req d = Inr req' \<Longrightarrow> admin req' d = Inl r
   \<Longrightarrow> run_chain [auth, admin] h req d = (Responded r, d)"
  by simp

lemma chain_pass:
  "auth req d = Inr req' \<Longrightarrow> admin req' d = Inr req''
   \<Longrightarrow> run_chain [auth, admin] h req d = h req'' d"
  by simp

lemma delete_handler_own_check:
  "fault d = None \<Longrightarrow> farmhouse_findById (param req ''id'') (farmhouses d) = Some fh
   \<Longrightarrow> fh_admin fh = Some a \<Longrightarrow> req_user req = Some u \<Longrightarrow> a \<noteq> u_id u
   \<Longrightarrow> farmhouse_delete_handler req d =
              (Responded \<lparr>status = 403,
                 body = ErrorBody ''Access denied. You are not the admin of this farmhouse.''\<rparr>, d)"
  by (simp add: farmhouse_delete_handler_def db_read_def)

text \<open>
  Claim C10. In the farmhouse router the guard \<open>admin || superadmin\<close> evaluates to the
  \<open>admin\<close> middleware: a function is truthy, so the second operand, which has no binding in
  this module, is never evaluated. The registered route is therefore the chain
  \<open>auth, admin\<close> before the handler, for every pair of middleware functions. A request that
  \<open>admin\<close> rejects gets that rejection and leaves the database as it was, whatever role the
  user has; a request that passes reaches the handler, whose own check answers 403 unless the
  requester is the recorded admin of the farmhouse.
\<close>

theorem delete_guard_is_admin:
  "eval (farmhouse_scope auth admin) (Or (Ident ''admin'') (Ident ''superadmin'')) = Inr (MwFunc admin)
   \<and> eval (farmhouse_scope auth admin) (Ident ''superadmin'')
       = Inl (ReferenceError ''superadmin is not defined'')
   \<and> farmhouse_delete_route auth admin = Inr (run_chain [auth, admin] farmhouse_delete_handler)
   \<and> (\<forall>req req' d r. auth req d = Inr req' \<and> admin req' d = Inl r
         \<longrightarrow> run_chain [auth, admin] farmhouse_delete_handler req d = (Responded r, d))
   \<and> (\<forall>req req' req'' d. auth req d = Inr req' \<and> admin req' d = Inr req''
         \<longrightarrow> run_chain [auth, admin] farmhouse_delete_handler req d = farmhouse_delete_handler req'' d)
   \<and> (\<forall>req d fh a u. fault d = None
         \<and> farmhouse_findById (param req ''id'') (farmhouses d) = Some fh
         \<and> fh_admin fh = Some a \<and> req_user req = Some u \<and> a \<noteq> u_id u
         \<longrightarrow> farmhouse_delete_handler req d =
              (Responded \<lparr>status = 403,
                 body = ErrorBody ''Access denied. You are not the admin of this farmhouse.''\<rparr>, d))"
proof (intro conjI allI impI)
  show "eval (farmhouse_scope auth admin) (Or (Ident ''admin'') (Ident ''superadmin'')) = Inr (MwFunc admin)"
    by (rule or_guard_value)
  show "eval (farmhouse_scope auth admin) (Ident ''superadmin'')
       = Inl (ReferenceError ''superadmin is not defined'')"
    by (rule superadmin_unbound)
  show "farmhouse_delete_route auth admin = Inr (run_chain [auth, admin] farmhouse_delete_handler)"
    by (rule delete_route_chain)
next
  fix req req' d r
  assume "auth req d = Inr req' \<and> admin req' d = Inl r"
  then show "run_chain [auth, admin] farmhouse_delete_handler req d = (Responded r, d)"
    using chain_reject by blast
next
  fix req req' req'' d
  assume "auth req d = Inr req' \<and> admin req' d = Inr req''"
  then show "run_chain [auth, admin] farmhouse_delete_handler req d = farmhouse_delete_handler req'' d"
    using chain_pass by blast
next
  fix req :: request and d :: db and fh a u
  assume "fault d = None
         \<and> farmhouse_findById (param req ''id'') (farmhouses d) = Some fh
         \<and> fh_admin fh = Some a \<and> req_user req = Some u \<and> a \<noteq> u_id u"
  then show "farmhouse_delete_handler req d =
              (Responded \<lparr>status = 403,
                 body = ErrorBody ''Access denied. You are not the admin of this farmhouse.''\<rparr>, d)"
    using delete_handler_own_check by blast
qed

theorem delete_guard_is_admin_witness:
  "farmhouse_delete_route (\<lambda>req d. Inr req)
       (\<lambda>req d. case req_user req of
            Some u \<Rightarrow> if u_role u = ''admin'' then Inr req
                      else Inl \<lparr>status = 403, body = MsgBody ''Access denied.''\<rparr>
          | None \<Rightarrow> Inl \<lparr>status = 403, body = MsgBody ''Access denied.''\<rparr>)
     = Inr (run_chain [\<lambda>req d. Inr req,
           \<lambda>req d. case req_user req of
            Some u \<Rightarrow> if u_role u = ''admin'' then Inr req
                      else Inl \<lparr>status = 403, body = MsgBody ''Access denied.''\<rparr>
          | None \<Rightarrow> Inl \<lparr>status = 403, body = MsgBody ''Access denied.''\<rparr>]
         farmhouse_delete_handler)
   \<and> run_chain [\<lambda>req d. Inr req,
           \<lambda>req d. case req_user req of
            Some u \<Rightarrow> if u_role u = ''admin'' then Inr req
                      else Inl \<lparr>status = 403, body = MsgBody ''Access denied.''\<rparr>
          | None \<Rightarrow> Inl \<lparr>status = 403, body = MsgBody ''Access denied.''\<rparr>]
         farmhouse_delete_handler
       \<lparr>req_authorization = None,
        req_user = Some \<lparr>u_id = ''s1'', u_role = ''superadmin'', u_farmhouse = None, u_location = None\<rparr>,
        req_params = [(''id'', ''f1'')], req_body = []\<rparr>
       (empty_db\<lparr>farmhouses :=
          [\<lparr>fh_id = ''f1'', fh_name = ''North'', fh_manager = None, fh_admin = Some ''a1'',
            fh_assistants = [], fh_location = Some ''Lahore''\<rparr>]\<rparr>)
     = (Responded \<lparr>status = 403, body = MsgBody ''Access denied.''\<rparr>,
        empty_db\<lparr>farmhouses :=
          [\<lparr>fh_id = ''f1'', fh_name = ''North'', fh_manager = None, fh_admin = Some ''a1'',
            fh_assistants = [], fh_location = Some ''Lahore''\<rparr>]\<rparr>)
   \<and> run_chain [\<lambda>req d. Inr req,
           \<lambda>req d. case req_user req of
            Some u \<Rightarrow> if u_role u = ''admin'' then Inr req
                      else Inl \<lparr>status = 403, body = MsgBody ''Access denied.''\<rparr>
          | None \<Rightarrow> Inl \<lparr>status = 403, body = MsgBody ''Access denied.''\<rparr>]
         farmhouse_delete_handler
       \<lparr>req_authorization = None,
        req_user = Some \<lparr>u_id = ''a2'', u_role = ''admin'', u_farmhouse = None, u_location = None\<rparr>,
        req_params = [(''id'', ''f1'')], req_body = []\<rparr>
       (empty_db\<lparr>farmhouses :=
          [\<lparr>fh_id = ''f1'', fh_name = ''North'', fh_manager = None, fh_admin = Some ''a1'',
            fh_assistants = [], fh_location = Some ''Lahore''\<rparr>]\<rparr>)
     = (Responded \<lparr>status = 403,
          body = ErrorBody ''Access denied. You are not the admin of this farmhouse.''\<rparr>,
        empty_db\<lparr>farmhouses :=
          [\<lparr>fh_id = ''f1'', fh_name = ''North'', fh_manager = None, fh_admin = Some ''a1'',
            fh_assistants = [], fh_location = Some ''Lahore''\<rparr>]\<rparr>)"
proof -
  let ?auth = "(\<lambda>req d. Inr req) :: middleware"
  let ?admin = "(\<lambda>req d. case req_user req of
            Some u \<Rightarrow> if u_role u = ''admin'' then Inr req
                      else Inl \<lparr>status = 403, body = MsgBody ''Access denied.''\<rparr>
          | None \<Rightarrow> Inl \<lparr>status = 403, body = MsgBody ''Access denied.''\<rparr>) :: middleware"
  let ?s = "\<lparr>u_id = ''s1'', u_role = ''superadmin'', u_farmhouse = None, u_location = None\<rparr>"
  let ?a = "\<lparr>u_id = ''a2'', u_role = ''admin'', u_farmhouse = None, u_location = None\<rparr>"
  let ?req_s = "\<lparr>req_authorization = None, req_user = Some ?s,
        req_params = [(''id'', ''f1'')], req_body = []\<rparr>"
  let ?req_a = "\<lparr>req_authorization = None, req_user = Some ?a,
        req_params = [(''id'', ''f1'')], req_body = []\<rparr>"
  let ?fh = "\<lparr>fh_id = ''f1'', fh_name = ''North'', fh_manager = None, fh_admin = Some ''a1'',
            fh_assistants = [], fh_location = Some ''Lahore''\<rparr>"
  let ?d = "empty_db\<lparr>farmhouses := [?fh]\<rparr>"
  let ?r = "\<lparr>status = 403, body = MsgBody ''Access denied.''\<rparr>"
  have a_s: "?auth ?req_s ?d = Inr ?req_s" and a_a: "?auth ?req_a ?d = Inr ?req_a"
    by simp_all
  have b_s: "?admin ?req_s ?d = Inl ?r" and b_a: "?admin ?req_a ?d = Inr ?req_a"
    by simp_all
  have own: "fault ?d = None
         \<and> farmhouse_findById (param ?req_a ''id'') (farmhouses ?d) = Some ?fh
         \<and> fh_admin ?fh = Some ''a1'' \<and> req_user ?req_a = Some ?a \<and> ''a1'' \<noteq> u_id ?a"
    by (simp add: farmhouse_findById_def param_def)
  note t = delete_guard_is_admin [of ?auth ?admin]
  from t have c1: "farmhouse_delete_route ?auth ?admin
     = Inr (run_chain [?auth, ?admin] farmhouse_delete_handler)"
    by (elim conjE)
  from t have "\<forall>req req' d r. ?auth req d = Inr req' \<and> ?admin req' d = Inl r
         \<longrightarrow> run_chain [?auth, ?admin] farmhouse_delete_handler req d = (Responded r, d)"
    by (elim conjE)
  with a_s b_s have c2: "run_chain [?auth, ?admin] farmhouse_delete_handler ?req_s ?d
      = (Responded ?r, ?d)"
    by blast
  from t have "\<forall>req req' req'' d. ?auth req d = Inr req' \<and> ?admin req' d = Inr req''
         \<longrightarrow> run_chain [?auth, ?admin] farmhouse_delete_handler req d = farmhouse_delete_handler req'' d"
    by (elim conjE)
  with a_a b_a have c3: "run_chain [?auth, ?admin] farmhouse_delete_handler ?req_a ?d
      = farmhouse_delete_handler ?req_a ?d"
    by blast
  from t have "\<forall>req d fh a u. fault d = None
         \<and> farmhouse_findById (param req ''id'') (farmhouses d) = Some fh
         \<and> fh_admin fh = Some a \<and> req_user req = Some u \<and> a \<noteq> u_id u
         \<longrightarrow> farmhouse_delete_handler req d =
              (Responded \<lparr>status = 403,
                 body = ErrorBody ''Access denied. You are not the admin of this farmhouse.''\<rparr>, d)"
    by (elim conjE)
  with own have c4: "farmhouse_delete_handler ?req_a ?d =
              (Responded \<lparr>status = 403,
                 body = ErrorBody ''Access denied. You are not the admin of this farmhouse.''\<rparr>, ?d)"
    by blast
  from c3 c4 have c5: "run_chain [?auth, ?admin] farmhouse_delete_handler ?req_a ?d =
              (Responded \<lparr>status = 403,
                 body = ErrorBody ''Access denied. You are not the admin of this farmhouse.''\<rparr>, ?d)"
    by simp
  from c1 c2 c5 show ?thesis
    by (intro conjI)
qed

subsection \<open>Role gating\<close>

lemma manager_rejects:
  "req_user req = Some u \<Longrightarrow> u_role u \<noteq> ''manager''
   \<Longrightarrow> manager req d = Inl \<lparr>status = 403, body = MsgBody ''Access denied. Manager privileges required.''\<rparr>"
  by (simp add: manager_def)

lemma superadmin_rejects:
  "req_user req = Some u \<Longrightarrow> u_role u \<noteq> required
   \<Longrightarrow> superadmin required req d = Inl \<lparr>status = 403, body = MsgBody ''Access denied. Super admin only.''\<rparr>"
  by (simp add: superadmin_def)

lemma get_admin_rejects:
  "req_user req = Some u \<Longrightarrow> u_role u \<noteq> ''admin''
   \<Longrightarrow> farmhouse_get_admin_handler req d =
       (Responded \<lparr>status = 403, body = ErrorBody ''Access denied. Admins only.''\<rparr>, d)"
  by (simp add: farmhouse_get_admin_handler_def)

lemma gate_after_auth:
  "auth req0 d = Inr req \<Longrightarrow> gate req d = Inl r \<Longrightarrow> run_chain [auth, gate] h req0 d = (Responded r, d)"
  by simp

text \<open>
  Claim C5. Let the auth middleware pass a request on with a decoded user. If the user's
  role is not \<open>manager\<close>, every route behind the \<open>manager\<close> middleware answers 403; if it
  is not \<open>admin\<close>, \<open>GET /farmhouse/admin\<close> answers 403; if it is not the role that the
  \<open>superadmin\<close> middleware requires, the alert routes POST, PUT, PATCH and DELETE answer 403.
  In each case the database after the request is the database before it.
\<close>

theorem role_gate_rejects:
  assumes "auth req0 d = Inr req" and "req_user req = Some u"
  shows "(u_role u \<noteq> ''manager'' \<longrightarrow>
            run_chain [auth, manager] h req0 d =
              (Responded \<lparr>status = 403, body = MsgBody ''Access denied. Manager privileges required.''\<rparr>, d))
       \<and> (u_role u \<noteq> ''admin'' \<longrightarrow>
            farmhouse_get_admin_route auth req0 d =
              (Responded \<lparr>status = 403, body = ErrorBody ''Access denied. Admins only.''\<rparr>, d))
       \<and> (u_role u \<noteq> required \<longrightarrow>
            alerts_post_route auth required validate oid req0 d =
              (Responded \<lparr>status = 403, body = MsgBody ''Access denied. Super admin only.''\<rparr>, d)
            \<and> alerts_put_route auth required req0 d =
              (Responded \<lparr>status = 403, body = MsgBody ''Access denied. Super admin only.''\<rparr>, d)
            \<and> alerts_patch_route auth required req0 d =
              (Responded \<lparr>status = 403, body = MsgBody ''Access denied. Super admin only.''\<rparr>, d)
            \<and> alerts_delete_route auth required req0 d =
              (Responded \<lparr>status = 403, body = MsgBody ''Access denied. Super admin only.''\<rparr>, d))"
proof (intro conjI impI)
  assume "u_role u \<noteq> ''manager''"
  with assms show "run_chain [auth, manager] h req0 d =
              (Responded \<lparr>status = 403, body = MsgBody ''Access denied. Manager privileges required.''\<rparr>, d)"
    by (simp add: manager_rejects)
next
  assume "u_role u \<noteq> ''admin''"
  with assms show "farmhouse_get_admin_route auth req0 d =
              (Responded \<lparr>status = 403, body = ErrorBody ''Access denied. Admins only.''\<rparr>, d)"
    by (simp add: farmhouse_get_admin_route_def get_admin_rejects)
next
  assume r: "u_role u \<noteq> required"
  with assms have s: "superadmin required req d =
      Inl \<lparr>status = 403, body = MsgBody ''Access denied. Super admin only.''\<rparr>"
    by (simp add: superadmin_rejects)
  from assms(1) s show "alerts_post_route auth required validate oid req0 d =
              (Responded \<lparr>status = 403, body = MsgBody ''Access denied. Super admin only.''\<rparr>, d)"
    unfolding alerts_post_route_def by (rule gate_after_auth)
  from assms(1) s show "alerts_put_route auth required req0 d =
              (Responded \<lparr>status = 403, body = MsgBody ''Access denied. Super admin only.''\<rparr>, d)"
    unfolding alerts_put_route_def by (rule gate_after_auth)
  from assms(1) s show "alerts_patch_route auth required req0 d =
              (Responded \<lparr>status = 403, body = MsgBody ''Access denied. Super admin only.''\<rparr>, d)"
    unfolding alerts_patch_route_def by (rule gate_after_auth)
  from assms(1) s show "alerts_delete_route auth required req0 d =
              (Responded \<lparr>status = 403, body = MsgBody ''Access denied. Super admin only.''\<rparr>, d)"
    unfolding alerts_delete_route_def by (rule gate_after_auth)
qed

theorem role_gate_rejects_witness:
  "alerts_delete_route (\<lambda>req d. Inr (req\<lparr>req_user :=
        Some \<lparr>u_id = ''u7'', u_role = ''assistant'', u_farmhouse = None, u_location = None\<rparr>\<rparr>))
     ''superadmin''
     \<lparr>req_authorization = Some ''Bearer t'', req_user = None, req_params = [(''id'', ''x1'')],
      req_body = []\<rparr>
     (empty_db\<lparr>alerts := [\<lparr>al_id = ''x1'', al_title = Some ''Flood'', al_category = None,
                 al_location = Some ''Lahore'', al_description = None\<rparr>]\<rparr>)
   = (Responded \<lparr>status = 403, body = MsgBody ''Access denied. Super admin only.''\<rparr>,
      empty_db\<lparr>alerts := [\<lparr>al_id = ''x1'', al_title = Some ''Flood'', al_category = None,
                 al_location = Some ''Lahore'', al_description = None\<rparr>]\<rparr>)
   \<and> farmhouse_get_admin_route (\<lambda>req d. Inr (req\<lparr>req_user :=
        Some \<lparr>u_id = ''u7'', u_role = ''assistant'', u_farmhouse = None, u_location = None\<rparr>\<rparr>))
     \<lparr>req_authorization = Some ''Bearer t'', req_user = None, req_params = [(''id'', ''x1'')],
      req_body = []\<rparr>
     (empty_db\<lparr>alerts := [\<lparr>al_id = ''x1'', al_title = Some ''Flood'', al_category = None,
                 al_location = Some ''Lahore'', al_description = None\<rparr>]\<rparr>)
   = (Responded \<lparr>status = 403, body = ErrorBody ''Access denied. Admins only.''\<rparr>,
      empty_db\<lparr>alerts := [\<lparr>al_id = ''x1'', al_title = Some ''Flood'', al_category = None,
                 al_location = Some ''Lahore'', al_description = None\<rparr>]\<rparr>)
   \<and> run_chain [\<lambda>req d. Inr (req\<lparr>req_user :=
        Some \<lparr>u_id = ''u7'', u_role = ''assistant'', u_farmhouse = None, u_location = None\<rparr>\<rparr>),
        manager] alerts_delete_handler
     \<lparr>req_authorization = Some ''Bearer t'', req_user = None, req_params = [(''id'', ''x1'')],
      req_body = []\<rparr>
     (empty_db\<lparr>alerts := [\<lparr>al_id = ''x1'', al_title = Some ''Flood'', al_category = None,
                 al_location = Some ''Lahore'', al_description = None\<rparr>]\<rparr>)
   = (Responded \<lparr>status = 403, body = MsgBody ''Access denied. Manager privileges required.''\<rparr>,
      empty_db\<lparr>alerts := [\<lparr>al_id = ''x1'', al_title = Some ''Flood'', al_category = None,
                 al_location = Some ''Lahore'', al_description = None\<rparr>]\<rparr>)"
proof -
  let ?u = "\<lparr>u_id = ''u7'', u_role = ''assistant'', u_farmhouse = None, u_location = None\<rparr>"
  let ?auth = "(\<lambda>req d. Inr (req\<lparr>req_user := Some ?u\<rparr>)) :: middleware"
  let ?req0 = "\<lparr>req_authorization = Some ''Bearer t'', req_user = None,
      req_params = [(''id'', ''x1'')], req_body = []\<rparr>"
  let ?d = "empty_db\<lparr>alerts := [\<lparr>al_id = ''x1'', al_title = Some ''Flood'', al_category = None,
                 al_location = Some ''Lahore'', al_description = None\<rparr>]\<rparr>"
  have a: "?auth ?req0 ?d = Inr (?req0\<lparr>req_user := Some ?u\<rparr>)"
    by simp
  have b: "req_user (?req0\<lparr>req_user := Some ?u\<rparr>) = Some ?u"
    by simp
  have c: "u_role ?u \<noteq> ''superadmin''" "u_role ?u \<noteq> ''admin''" "u_role ?u \<noteq> ''manager''"
    by simp_all
  note t = role_gate_rejects [where auth = ?auth and ?req0.0 = ?req0 and d = ?d
      and req = "?req0\<lparr>req_user := Some ?u\<rparr>" and u = ?u and required = "''superadmin''"
      and h = alerts_delete_handler, OF a b]
  from t c(1) have r1: "alerts_delete_route ?auth ''superadmin'' ?req0 ?d
      = (Responded \<lparr>status = 403, body = MsgBody ''Access denied. Super admin only.''\<rparr>, ?d)"
    by blast
  from t c(2) have r2: "farmhouse_get_admin_route ?auth ?req0 ?d
      = (Responded \<lparr>status = 403, body = ErrorBody ''Access denied. Admins only.''\<rparr>, ?d)"
    by blast
  from t c(3) have r3: "run_chain [?auth, manager] alerts_delete_handler ?req0 ?d
      = (Responded \<lparr>status = 403, body = MsgBody ''Access denied. Manager privileges required.''\<rparr>, ?d)"
    by blast
  from r1 r2 r3 show ?thesis
    by (intro conjI)
qed

subsection \<open>Create requests with a missing field\<close>

lemma missing_falsy: "map_of b k = None \<Longrightarrow> falsy_key b k"
  by (simp add: falsy_key_def)

lemma missing_undefined: "map_of b k = None \<Longrightarrow> undefined_key b k"
  by (simp add: undefined_key_def)

lemma animals_post_missing:
  assumes "missing_key animal_required (req_body req)"
  shows "animals_post_handler coerce reject oid req d =
           (Responded \<lparr>status = 400, body = ErrorBody ''Missing required fields''\<rparr>, d)"
proof -
  let ?b = "req_body req"
  from assms have "falsy_key ?b ''tagId'' \<or> falsy_key ?b ''breed'' \<or> falsy_key ?b ''gender''
         \<or> falsy_key ?b ''dob''
         \<or> falsy_key ?b ''weight'' \<or> falsy_key ?b ''condition'' \<or> falsy_key ?b ''status''
         \<or> falsy_key ?b ''farmhouse'' \<or> falsy_key ?b ''acquisitionType''
         \<or> falsy_key ?b ''acquisitionDate''"
    unfolding missing_key_def animal_required_def list_ex_Cons_iff list_ex_Nil_iff
    using missing_falsy [of ?b] by blast
  then show ?thesis
    unfolding animals_post_handler_def Let_def by (rule if_P)
qed

lemma breeding_post_missing:
  assumes "missing_key breeding_fields (req_body req)"
  shows "breeding_post_handler coerce reject oid req d =
           (Responded \<lparr>status = 400, body = ErrorBody ''All fields are required''\<rparr>, d)"
proof -
  let ?b = "req_body req"
  from assms have "falsy_key ?b ''sireTagId'' \<or> falsy_key ?b ''damTagId'' \<or> falsy_key ?b ''breedingDate''
         \<or> falsy_key ?b ''breedingMethod'' \<or> falsy_key ?b ''expectedDelivery''
         \<or> falsy_key ?b ''actualDelivery'' \<or> undefined_key ?b ''numberOfOffspring''
         \<or> falsy_key ?b ''status'' \<or> undefined_key ?b ''cost'' \<or> falsy_key ?b ''performedBy''
         \<or> falsy_key ?b ''notes''"
    unfolding missing_key_def breeding_fields_def list_ex_Cons_iff list_ex_Nil_iff
    using missing_falsy [of ?b] missing_undefined [of ?b] by blast
  then show ?thesis
    unfolding breeding_post_handler_def Let_def by (rule if_P)
qed

lemma vaccinations_post_missing:
  assumes "missing_key vaccination_fields (req_body req)"
  shows "vaccinations_post_handler coerce reject oid req d =
           (Responded \<lparr>status = 400, body = ErrorBody ''All fields are required''\<rparr>, d)"
proof -
  let ?b = "req_body req"
  from assms have "falsy_key ?b ''animalTagId'' \<or> falsy_key ?b ''vaccineName'' \<or> falsy_key ?b ''manufacturer''
         \<or> falsy_key ?b ''batchNumber'' \<or> falsy_key ?b ''vaccinationType'' \<or> falsy_key ?b ''dosage''
         \<or> falsy_key ?b ''administrationRoute'' \<or> falsy_key ?b ''administeredBy''
         \<or> falsy_key ?b ''treatmentDate'' \<or> falsy_key ?b ''expiryDate'' \<or> falsy_key ?b ''nextDueDate''
         \<or> undefined_key ?b ''cost'' \<or> falsy_key ?b ''status'' \<or> falsy_key ?b ''sideEffects''
         \<or> falsy_key ?b ''notes''"
    unfolding missing_key_def vaccination_fields_def list_ex_Cons_iff list_ex_Nil_iff
    using missing_falsy [of ?b] missing_undefined [of ?b] by blast
  then show ?thesis
    unfolding vaccinations_post_handler_def Let_def by (rule if_P)
qed

lemma healthRecords_post_missing:
  assumes "missing_key health_record_fields (req_body req)"
  shows "healthRecords_post_handler coerce reject oid req d =
           (Responded \<lparr>status = 400, body = ErrorBody ''All fields are required''\<rparr>, d)"
proof -
  let ?b = "req_body req"
  from assms have "falsy_key ?b ''animalTagId'' \<or> falsy_key ?b ''healthIssue'' \<or> falsy_key ?b ''symptoms''
         \<or> falsy_key ?b ''diagnosis'' \<or> falsy_key ?b ''treatment'' \<or> falsy_key ?b ''veterinarian''
         \<or> falsy_key ?b ''treatmentDate'' \<or> falsy_key ?b ''followUpDate'' \<or> falsy_key ?b ''severity''
         \<or> undefined_key ?b ''cost'' \<or> falsy_key ?b ''status'' \<or> falsy_key ?b ''notes''"
    unfolding missing_key_def health_record_fields_def list_ex_Cons_iff list_ex_Nil_iff
    using missing_falsy [of ?b] missing_undefined [of ?b] by blast
  then show ?thesis
    unfolding healthRecords_post_handler_def Let_def by (rule if_P)
qed

lemma farmhouse_post_missing:
  assumes "missing_key farmhouse_required (req_body req)"
  shows "is_400 (fst (farmhouse_post_handler oid req d)) \<and> snd (farmhouse_post_handler oid req d) = d"
proof -
  from assms have "str_field (req_body req) ''Name'' = None"
    by (simp add: missing_key_def farmhouse_required_def str_field_def)
  then show ?thesis
    by (cases "req_user req") (simp_all add: farmhouse_post_handler_def farmhouse_validate_def)
qed

text \<open>
  Claim C6. A create request whose body lacks one of the keys that the resource requires is
  answered 400 with an error string, and the database after the request is the database
  before it. This holds for the create handlers of animals, breeding records, vaccinations
  and health records, whose first check reads every required key, for farmhouses, where
  the \<open>required\<close> validator of the schema rejects the document on save, and for the two
  handlers that add an identifier to a FarmhouseUsers record.
\<close>

theorem create_missing_field_400:
  "(missing_key animal_required (req_body req) \<longrightarrow>
      animals_post_handler coerce reject oid req d =
        (Responded \<lparr>status = 400, body = ErrorBody ''Missing required fields''\<rparr>, d))
   \<and> (missing_key breeding_fields (req_body req) \<longrightarrow>
      breeding_post_handler coerce reject oid req d =
        (Responded \<lparr>status = 400, body = ErrorBody ''All fields are required''\<rparr>, d))
   \<and> (missing_key vaccination_fields (req_body req) \<longrightarrow>
      vaccinations_post_handler coerce reject oid req d =
        (Responded \<lparr>status = 400, body = ErrorBody ''All fields are required''\<rparr>, d))
   \<and> (missing_key health_record_fields (req_body req) \<longrightarrow>
      healthRecords_post_handler coerce reject oid req d =
        (Responded \<lparr>status = 400, body = ErrorBody ''All fields are required''\<rparr>, d))
   \<and> (missing_key farmhouse_required (req_body req) \<longrightarrow>
      is_400 (fst (farmhouse_post_handler oid req d)) \<and> snd (farmhouse_post_handler oid req d) = d)
   \<and> (missing_key [''assistantId''] (req_body req) \<longrightarrow>
      add_assistant req d =
        (Responded \<lparr>status = 400, body = ErrorBody ''assistantId required''\<rparr>, d))
   \<and> (missing_key [''managerId''] (req_body req) \<longrightarrow>
      add_manager req d =
        (Responded \<lparr>status = 400, body = ErrorBody ''managerId required''\<rparr>, d))"
proof (intro conjI impI)
  assume "missing_key animal_required (req_body req)"
  then show "animals_post_handler coerce reject oid req d =
        (Responded \<lparr>status = 400, body = ErrorBody ''Missing required fields''\<rparr>, d)"
    by (rule animals_post_missing)
next
  assume "missing_key breeding_fields (req_body req)"
  then show "breeding_post_handler coerce reject oid req d =
        (Responded \<lparr>status = 400, body = ErrorBody ''All fields are required''\<rparr>, d)"
    by (rule breeding_post_missing)
next
  assume "missing_key vaccination_fields (req_body req)"
  then show "vaccinations_post_handler coerce reject oid req d =
        (Responded \<lparr>status = 400, body = ErrorBody ''All fields are required''\<rparr>, d)"
    by (rule vaccinations_post_missing)
next
  assume "missing_key health_record_fields (req_body req)"
  then show "healthRecords_post_handler coerce reject oid req d =
        (Responded \<lparr>status = 400, body = ErrorBody ''All fields are required''\<rparr>, d)"
    by (rule healthRecords_post_missing)
next
  assume m: "missing_key farmhouse_required (req_body req)"
  from farmhouse_post_missing [OF m]
  show "is_400 (fst (farmhouse_post_handler oid req d))"
    and "snd (farmhouse_post_handler oid req d) = d"
    by simp_all
next
  assume "missing_key [''assistantId''] (req_body req)"
  then show "add_assistant req d =
        (Responded \<lparr>status = 400, body = ErrorBody ''assistantId required''\<rparr>, d)"
    by (simp add: add_assistant_def fu_add_handler_def missing_key_def falsy_key_def)
next
  assume "missing_key [''managerId''] (req_body req)"
  then show "add_manager req d =
        (Responded \<lparr>status = 400, body = ErrorBody ''managerId required''\<rparr>, d)"
    by (simp add: add_manager_def fu_add_handler_def missing_key_def falsy_key_def)
qed

theorem create_missing_field_400_witness:
  "animals_post_handler (\<lambda>v. None) (\<lambda>doc coll. None) ''o1''
     \<lparr>req_authorization = None,
      req_user = Some \<lparr>u_id = ''a1'', u_role = ''admin'', u_farmhouse = None, u_location = None\<rparr>,
      req_params = [], req_body = [(''location'', JStr ''Lahore'')]\<rparr>
     empty_db
   = (Responded \<lparr>status = 400, body = ErrorBody ''Missing required fields''\<rparr>, empty_db)
   \<and> breeding_post_handler (\<lambda>v. None) (\<lambda>doc coll. None) ''o1''
     \<lparr>req_authorization = None,
      req_user = Some \<lparr>u_id = ''a1'', u_role = ''admin'', u_farmhouse = None, u_location = None\<rparr>,
      req_params = [], req_body = [(''location'', JStr ''Lahore'')]\<rparr>
     empty_db
   = (Responded \<lparr>status = 400, body = ErrorBody ''All fields are required''\<rparr>, empty_db)
   \<and> vaccinations_post_handler (\<lambda>v. None) (\<lambda>doc coll. None) ''o1''
     \<lparr>req_authorization = None,
      req_user = Some \<lparr>u_id = ''a1'', u_role = ''admin'', u_farmhouse = None, u_location = None\<rparr>,
      req_params = [], req_body = [(''location'', JStr ''Lahore'')]\<rparr>
     empty_db
   = (Responded \<lparr>status = 400, body = ErrorBody ''All fields are required''\<rparr>, empty_db)
   \<and> healthRecords_post_handler (\<lambda>v. None) (\<lambda>doc coll. None) ''o1''
     \<lparr>req_authorization = None,
      req_user = Some \<lparr>u_id = ''a1'', u_role = ''admin'', u_farmhouse = None, u_location = None\<rparr>,
      req_params = [], req_body = [(''location'', JStr ''Lahore'')]\<rparr>
     empty_db
   = (Responded \<lparr>status = 400, body = ErrorBody ''All fields are required''\<rparr>, empty_db)
   \<and> is_400 (fst (farmhouse_post_handler ''o1''
       \<lparr>req_authorization = None,
        req_user = Some \<lparr>u_id = ''a1'', u_role = ''admin'', u_farmhouse = None, u_location = None\<rparr>,
        req_params = [], req_body = [(''location'', JStr ''Lahore'')]\<rparr>
       empty_db))
   \<and> snd (farmhouse_post_handler ''o1''
       \<lparr>req_authorization = None,
        req_user = Some \<lparr>u_id = ''a1'', u_role = ''admin'', u_farmhouse = None, u_location = None\<rparr>,
        req_params = [], req_body = [(''location'', JStr ''Lahore'')]\<rparr>
       empty_db) = empty_db
   \<and> add_assistant
     \<lparr>req_authorization = None,
      req_user = Some \<lparr>u_id = ''a1'', u_role = ''admin'', u_farmhouse = None, u_location = None\<rparr>,
      req_params = [], req_body = [(''location'', JStr ''Lahore'')]\<rparr>
     empty_db
   = (Responded \<lparr>status = 400, body = ErrorBody ''assistantId required''\<rparr>, empty_db)
   \<and> add_manager
     \<lparr>req_authorization = None,
      req_user = Some \<lparr>u_id = ''a1'', u_role = ''admin'', u_farmhouse = None, u_location = None\<rparr>,
      req_params = [], req_body = [(''location'', JStr ''Lahore'')]\<rparr>
     empty_db
   = (Responded \<lparr>status = 400, body = ErrorBody ''managerId required''\<rparr>, empty_db)"
proof -
  let ?r = "\<lparr>req_authorization = None,
        req_user = Some \<lparr>u_id = ''a1'', u_role = ''admin'', u_farmhouse = None, u_location = None\<rparr>,
        req_params = [], req_body = [(''location'', JStr ''Lahore'')]\<rparr>"
  have m: "missing_key animal_required (req_body ?r)" "missing_key breeding_fields (req_body ?r)"
    "missing_key vaccination_fields (req_body ?r)" "missing_key health_record_fields (req_body ?r)"
    "missing_key farmhouse_required (req_body ?r)" "missing_key [''assistantId''] (req_body ?r)"
    "missing_key [''managerId''] (req_body ?r)"
    by (simp_all add: missing_key_def animal_required_def breeding_fields_def vaccination_fields_def
        health_record_fields_def farmhouse_required_def)
  note t = create_missing_field_400 [of ?r "\<lambda>v. None" "\<lambda>doc coll. None" "''o1''" empty_db]
  from t m(1) have r1: "animals_post_handler (\<lambda>v. None) (\<lambda>doc coll. None) ''o1'' ?r empty_db
     = (Responded \<lparr>status = 400, body = ErrorBody ''Missing required fields''\<rparr>, empty_db)"
    by blast
  from t m(2) have r2: "breeding_post_handler (\<lambda>v. None) (\<lambda>doc coll. None) ''o1'' ?r empty_db
     = (Responded \<lparr>status = 400, body = ErrorBody ''All fields are required''\<rparr>, empty_db)"
    by blast
  from t m(3) have r3: "vaccinations_post_handler (\<lambda>v. None) (\<lambda>doc coll. None) ''o1'' ?r empty_db
     = (Responded \<lparr>status = 400, body = ErrorBody ''All fields are required''\<rparr>, empty_db)"
    by blast
  from t m(4) have r4: "healthRecords_post_handler (\<lambda>v. None) (\<lambda>doc coll. None) ''o1'' ?r empty_db
     = (Responded \<lparr>status = 400, body = ErrorBody ''All fields are required''\<rparr>, empty_db)"
    by blast
  from t m(5) have r5: "is_400 (fst (farmhouse_post_handler ''o1'' ?r empty_db))"
    and r6: "snd (farmhouse_post_handler ''o1'' ?r empty_db) = empty_db"
    by blast+
  from t m(6) have r7: "add_assistant ?r empty_db
     = (Responded \<lparr>status = 400, body = ErrorBody ''assistantId required''\<rparr>, empty_db)"
    by blast
  from t m(7) have r8: "add_manager ?r empty_db
     = (Responded \<lparr>status = 400, body = ErrorBody ''managerId required''\<rparr>, empty_db)"
    by blast
  from r1 r2 r3 r4 r5 r6 r7 r8 show ?thesis
    by (intro conjI)
qed

text \<open>
  The create path itself is live: complete bodies are answered 201 and the document is
  appended to its collection.
\<close>

lemma farmhouse_post_creates:
  "farmhouse_post_handler ''o2''
       \<lparr>req_authorization = None,
        req_user = Some \<lparr>u_id = ''a1'', u_role = ''admin'', u_farmhouse = None, u_location = None\<rparr>,
        req_params = [], req_body = [(''Name'', JStr ''North''), (''location'', JStr ''Lahore'')]\<rparr>
       empty_db
   = (Responded \<lparr>status = 201, body = FarmhouseDoc
         \<lparr>fh_id = ''o2'', fh_name = ''North'', fh_manager = None, fh_admin = Some ''a1'',
          fh_assistants = [], fh_location = Some ''Lahore''\<rparr>\<rparr>,
      empty_db\<lparr>farmhouses :=
         [\<lparr>fh_id = ''o2'', fh_name = ''North'', fh_manager = None, fh_admin = Some ''a1'',
           fh_assistants = [], fh_location = Some ''Lahore''\<rparr>]\<rparr>)"
  by (simp add: farmhouse_post_handler_def farmhouse_validate_def str_field_def str_array_field_def
      Let_def)

lemma breeding_post_creates:
  "breeding_post_handler (\<lambda>v. None) (\<lambda>doc coll. None) ''o3''
       \<lparr>req_authorization = None, req_user = None, req_params = [],
        req_body = [(''sireTagId'', JStr ''T-1''), (''damTagId'', JStr ''T-2''),
          (''breedingDate'', JStr ''2024-01-15''), (''breedingMethod'', JStr ''Natural''),
          (''expectedDelivery'', JStr ''2024-10-15''), (''actualDelivery'', JStr ''2024-10-20''),
          (''numberOfOffspring'', JNum 0), (''status'', JStr ''Successful''), (''cost'', JNum 0),
          (''performedBy'', JStr ''Dr. Smith''), (''notes'', JStr ''ok'')]\<rparr>
       empty_db
   = (Responded \<lparr>status = 201, body = MessageDocBody ''Breeding record created successfully'' ''breeding''
         \<lparr>d_id = ''o3'', d_fields = [(''sireTagId'', JStr ''T-1''), (''damTagId'', JStr ''T-2''),
          (''breedingDate'', JStr ''2024-01-15''), (''breedingMethod'', JStr ''Natural''),
          (''expectedDelivery'', JStr ''2024-10-15''), (''actualDelivery'', JStr ''2024-10-20''),
          (''numberOfOffspring'', JNum 0), (''status'', JStr ''Successful''), (''cost'', JNum 0),
          (''performedBy'', JStr ''Dr. Smith''), (''notes'', JStr ''ok'')]\<rparr>\<rparr>,
      empty_db\<lparr>breedings :=
         [\<lparr>d_id = ''o3'', d_fields = [(''sireTagId'', JStr ''T-1''), (''damTagId'', JStr ''T-2''),
          (''breedingDate'', JStr ''2024-01-15''), (''breedingMethod'', JStr ''Natural''),
          (''expectedDelivery'', JStr ''2024-10-15''), (''actualDelivery'', JStr ''2024-10-20''),
          (''numberOfOffspring'', JNum 0), (''status'', JStr ''Successful''), (''cost'', JNum 0),
          (''performedBy'', JStr ''Dr. Smith''), (''notes'', JStr ''ok'')]\<rparr>]\<rparr>)"
  by (simp add: breeding_post_handler_def falsy_key_def undefined_key_def isNaN_def lt_zero_def
      toNumber_def save_new_def pick_def breeding_fields_def Let_def)

subsection \<open>Exceptions of the database call\<close>











subsection \<open>Invariants of the FarmhouseUsers collection\<close>














text \<open>An identifier that is not yet listed is appended.\<close>

lemma add_assistant_new_example:
  "add_assistant
      \<lparr>req_authorization = None, req_user = None, req_params = [(''adminId'', ''a1'')],
       req_body = [(''assistantId'', JStr ''s3'')]\<rparr>
      (empty_db\<lparr>farmhouseUsers :=
         [\<lparr>fu_adminId = ''a1'', fu_managers = [''m1''], fu_assistants = [''s1'', ''s2'']\<rparr>]\<rparr>)
     = (Responded \<lparr>status = 200,
          body = FarmhouseUserBody ''AssistantId s3 added to FarmhouseUsers of adminId a1.''
                   \<lparr>fu_adminId = ''a1'', fu_managers = [''m1''], fu_assistants = [''s1'', ''s2'', ''s3'']\<rparr>\<rparr>,
        empty_db\<lparr>farmhouseUsers :=
         [\<lparr>fu_adminId = ''a1'', fu_managers = [''m1''], fu_assistants = [''s1'', ''s2'', ''s3'']\<rparr>]\<rparr>)"
  by (simp add: add_assistant_def fu_add_handler_def db_read_def falsy_key_def fu_findOne_def
      param_def msg_added_def fu_save_def Let_def)

subsection \<open>CSV export followed by import\<close>





















end
